theory Spec2Isabelle
  imports Main
begin

section \<open>fdv2proto: selectors, changes, change sets\<close>

text \<open>
  \<^verbatim>\<open>selector.go\<close>: a Selector is a struct of a state string and a version. Go's \<^verbatim>\<open>int\<close> is
  modelled as \<open>int\<close>: no arithmetic is done on versions anywhere in the code modelled here.
\<close>

record Selector =
  state :: string
  version :: int

definition NoSelector :: Selector where
  "NoSelector = \<lparr>state = [], version = 0\<rparr>"

definition IsDefined :: "Selector \<Rightarrow> bool" where
  "IsDefined s = (s \<noteq> NoSelector)"

definition NewSelector :: "string \<Rightarrow> int \<Rightarrow> Selector" where
  "NewSelector st v = \<lparr>state = st, version = v\<rparr>"

text \<open>
  \<^verbatim>\<open>changeset.go\<close>. \<^verbatim>\<open>ChangeType\<close> is a string type with the two constants below;
  \<^verbatim>\<open>json.RawMessage\<close> is a byte slice that may be nil, hence an optional string.
  \<^verbatim>\<open>ObjectKind\<close> is a string type.
\<close>

datatype ChangeType = ChangeTypePut | ChangeTypeDelete

record Change =
  Action :: ChangeType
  Kind :: string
  Key :: string
  Version :: int
  Object :: "string option"

text \<open>
  \<^verbatim>\<open>IntentCode\<close> is a string type in the source; its three named constants are the first
  three constructors, and every other string is \<open>IntentOther\<close>.
\<close>

datatype IntentCode = IntentTransferFull | IntentTransferChanges | IntentNone | IntentOther string

text \<open>
  The declaration of \<^verbatim>\<open>ServerIntent\<close> is not among the source files. The code reads and writes
  \<^verbatim>\<open>intent.Payload.Code\<close>, and the comment in \<^verbatim>\<open>Finish\<close> names the other fields of the payload
  (Reason, ID, Target).
\<close>

record Payload =
  ID :: string
  Target :: int
  Code :: IntentCode
  Reason :: string

record ServerIntent =
  Payload :: Payload

record ChangeSet =
  intentCode :: IntentCode
  csChanges :: "Change list"
  selector :: Selector

record ChangeSetBuilder =
  intent :: "ServerIntent option"
  changes :: "Change list"

definition NewChangeSetBuilder :: ChangeSetBuilder where
  "NewChangeSetBuilder = \<lparr>intent = None, changes = []\<rparr>"

definition NoChanges :: ChangeSet where
  "NoChanges = \<lparr>intentCode = IntentNone, csChanges = [], selector = NoSelector\<rparr>"

text \<open>\<^verbatim>\<open>Start\<close> stores a copy of the intent and drops the changes; its error is always nil.\<close>

definition Start :: "ServerIntent \<Rightarrow> ChangeSetBuilder \<Rightarrow> ChangeSetBuilder \<times> string option" where
  "Start i c = (c\<lparr>intent := Some i, changes := []\<rparr>, None)"

text \<open>
  \<^verbatim>\<open>Finish\<close> returns the change set or an error, and the builder as it leaves it: changes
  cleared, and a full-transfer intent rewritten to an incremental one.
\<close>

definition Finish :: "Selector \<Rightarrow> ChangeSetBuilder \<Rightarrow> (string + ChangeSet) \<times> ChangeSetBuilder" where
  "Finish sel c =
     (case intent c of
        None \<Rightarrow> (Inl ''changeset: cannot complete without a server-intent'', c)
      | Some i \<Rightarrow>
          (let cs = \<lparr>intentCode = Code (Payload i), csChanges = changes c, selector = sel\<rparr>;
               c1 = c\<lparr>changes := []\<rparr>;
               c2 = (if Code (Payload i) = IntentTransferFull
                     then c1\<lparr>intent := Some (i\<lparr>Payload := (Payload i)\<lparr>Code := IntentTransferChanges\<rparr>\<rparr>)\<rparr>
                     else c1)
           in (Inr cs, c2)))"

definition AddPut :: "string \<Rightarrow> string \<Rightarrow> int \<Rightarrow> string option \<Rightarrow> ChangeSetBuilder \<Rightarrow> ChangeSetBuilder" where
  "AddPut kind key ver obj c =
     c\<lparr>changes := changes c @
          [\<lparr>Action = ChangeTypePut, Kind = kind, Key = key, Version = ver, Object = obj\<rparr>]\<rparr>"

definition AddDelete :: "string \<Rightarrow> string \<Rightarrow> int \<Rightarrow> ChangeSetBuilder \<Rightarrow> ChangeSetBuilder" where
  "AddDelete kind key ver c =
     c\<lparr>changes := changes c @
          [\<lparr>Action = ChangeTypeDelete, Kind = kind, Key = key, Version = ver, Object = None\<rparr>]\<rparr>"

text \<open>
  A sequence of \<^verbatim>\<open>AddPut\<close> and \<^verbatim>\<open>AddDelete\<close> calls on one builder, and the change each call
  appends.
\<close>

datatype AddCall = CallAddPut string string int "string option" | CallAddDelete string string int

fun addCall :: "AddCall \<Rightarrow> ChangeSetBuilder \<Rightarrow> ChangeSetBuilder" where
  "addCall (CallAddPut k key v obj) c = AddPut k key v obj c"
| "addCall (CallAddDelete k key v) c = AddDelete k key v c"

fun addCalls :: "AddCall list \<Rightarrow> ChangeSetBuilder \<Rightarrow> ChangeSetBuilder" where
  "addCalls [] c = c"
| "addCalls (x # xs) c = addCalls xs (addCall x c)"

fun changeOf :: "AddCall \<Rightarrow> Change" where
  "changeOf (CallAddPut k key v obj) =
     \<lparr>Action = ChangeTypePut, Kind = k, Key = key, Version = v, Object = obj\<rparr>"
| "changeOf (CallAddDelete k key v) =
     \<lparr>Action = ChangeTypeDelete, Kind = k, Key = key, Version = v, Object = None\<rparr>"

section \<open>ldcomponents: building the data system configuration\<close>

text \<open>
  The components (store, initializer, synchronizer) are interface values and stay abstract:
  type parameters. \<^verbatim>\<open>DataStoreMode\<close> is declared outside the source files; the code names its
  two constants. The zero value \<^verbatim>\<open>DataSystemConfiguration{}\<close> has nil components, no
  initializers and the zero store mode, taken to be the first constant.
\<close>

datatype DataStoreMode = DataStoreModeRead | DataStoreModeReadWrite

record 'syn SynchronizersConfiguration =
  Primary :: "'syn option"
  Secondary :: "'syn option"

record ('st, 'ini, 'syn) DataSystemConfiguration =
  Store :: "'st option"
  StoreMode :: DataStoreMode
  Initializers :: "'ini list"
  Synchronizers :: "'syn SynchronizersConfiguration"

definition emptyDataSystemConfiguration :: "('st, 'ini, 'syn) DataSystemConfiguration" where
  "emptyDataSystemConfiguration =
     \<lparr>Store = None, StoreMode = DataStoreModeRead, Initializers = [],
      Synchronizers = \<lparr>Primary = None, Secondary = None\<rparr>\<rparr>"

text \<open>
  A \<^verbatim>\<open>ComponentConfigurer[T]\<close> is an interface with one method \<^verbatim>\<open>Build(context) (T, error)\<close>:
  a function from the context to an error or a component. A nil configurer is \<open>None\<close>.
  Component errors are opaque values of type \<open>'e\<close>.
\<close>

type_synonym ('ctx, 'e, 'a) ComponentConfigurer = "'ctx \<Rightarrow> 'e + 'a"

record ('ctx, 'e, 'st, 'ini, 'syn) DataSystemConfigurationBuilder =
  storeBuilder :: "('ctx, 'e, 'st) ComponentConfigurer option"
  storeMode :: DataStoreMode
  initializerBuilders :: "('ctx, 'e, 'ini) ComponentConfigurer option list"
  primarySyncBuilder :: "('ctx, 'e, 'syn) ComponentConfigurer option"
  secondarySyncBuilder :: "('ctx, 'e, 'syn) ComponentConfigurer option"
  config :: "('st, 'ini, 'syn) DataSystemConfiguration"

text \<open>
  The errors \<^verbatim>\<open>Build\<close> returns: its own two (\<^verbatim>\<open>errors.New\<close>, \<^verbatim>\<open>fmt.Errorf\<close> with the index), or
  the error of a component's configurer.
\<close>

datatype 'e BuildError =
    ErrSecondaryWithoutPrimary
  | ErrInitializerNil nat
  | ErrComponent 'e

text \<open>
  Every call of a configurer's \<^verbatim>\<open>Build\<close> method is recorded, in order: the trace is the
  observable effect of \<^verbatim>\<open>DataSystemConfigurationBuilder.Build\<close> on its collaborators.
\<close>

datatype BuildCall = StoreBuild | InitializerBuild nat | PrimaryBuild | SecondaryBuild

text \<open>
  The \<^verbatim>\<open>for i, initializerBuilder := range d.initializerBuilders\<close> loop, from index \<open>i\<close>, with
  the initializers appended so far and the trace so far.
\<close>

fun buildInitializers ::
  "'ctx \<Rightarrow> nat \<Rightarrow> ('ctx, 'e, 'ini) ComponentConfigurer option list \<Rightarrow> 'ini list \<Rightarrow>
   BuildCall list \<Rightarrow> ('e BuildError + 'ini list) \<times> BuildCall list" where
  "buildInitializers ctx i [] acc tr = (Inr acc, tr)"
| "buildInitializers ctx i (None # bs) acc tr = (Inl (ErrInitializerNil i), tr)"
| "buildInitializers ctx i (Some b # bs) acc tr =
     (case b ctx of
        Inl e \<Rightarrow> (Inl (ErrComponent e), tr @ [InitializerBuild i])
      | Inr x \<Rightarrow> buildInitializers ctx (Suc i) bs (acc @ [x]) (tr @ [InitializerBuild i]))"

text \<open>
  The three \<^verbatim>\<open>if builder != nil { ... }\<close> blocks of \<^verbatim>\<open>Build\<close>, each from the configuration
  built so far to an error or the updated configuration, with the configurer calls made.
\<close>

definition buildStore ::
  "('ctx, 'e, 'st, 'ini, 'syn) DataSystemConfigurationBuilder \<Rightarrow> 'ctx \<Rightarrow>
   ('st, 'ini, 'syn) DataSystemConfiguration \<Rightarrow>
   ('e BuildError + ('st, 'ini, 'syn) DataSystemConfiguration) \<times> BuildCall list" where
  "buildStore d ctx conf =
     (case storeBuilder d of
        None \<Rightarrow> (Inr conf, [])
      | Some b \<Rightarrow>
          (case b ctx of
             Inl err \<Rightarrow> (Inl (ErrComponent err), [StoreBuild])
           | Inr store \<Rightarrow> (Inr (conf\<lparr>Store := Some store\<rparr>), [StoreBuild])))"

definition buildPrimary ::
  "('ctx, 'e, 'st, 'ini, 'syn) DataSystemConfigurationBuilder \<Rightarrow> 'ctx \<Rightarrow>
   ('st, 'ini, 'syn) DataSystemConfiguration \<Rightarrow>
   ('e BuildError + ('st, 'ini, 'syn) DataSystemConfiguration) \<times> BuildCall list" where
  "buildPrimary d ctx conf =
     (case primarySyncBuilder d of
        None \<Rightarrow> (Inr conf, [])
      | Some b \<Rightarrow>
          (case b ctx of
             Inl err \<Rightarrow> (Inl (ErrComponent err), [PrimaryBuild])
           | Inr primarySync \<Rightarrow>
               (Inr (conf\<lparr>Synchronizers := (Synchronizers conf)\<lparr>Primary := Some primarySync\<rparr>\<rparr>),
                [PrimaryBuild])))"

definition buildSecondary ::
  "('ctx, 'e, 'st, 'ini, 'syn) DataSystemConfigurationBuilder \<Rightarrow> 'ctx \<Rightarrow>
   ('st, 'ini, 'syn) DataSystemConfiguration \<Rightarrow>
   ('e BuildError + ('st, 'ini, 'syn) DataSystemConfiguration) \<times> BuildCall list" where
  "buildSecondary d ctx conf =
     (case secondarySyncBuilder d of
        None \<Rightarrow> (Inr conf, [])
      | Some b \<Rightarrow>
          (case b ctx of
             Inl err \<Rightarrow> (Inl (ErrComponent err), [SecondaryBuild])
           | Inr secondarySync \<Rightarrow>
               (Inr (conf\<lparr>Synchronizers := (Synchronizers conf)\<lparr>Secondary := Some secondarySync\<rparr>\<rparr>),
                [SecondaryBuild])))"

text \<open>
  \<^verbatim>\<open>Build\<close> returns the configuration, the error (\<open>None\<close> for nil) and the trace of configurer
  calls. Every error return gives the zero configuration. The store mode of the builder is
  not copied into the configuration: the source does not copy it.
\<close>

definition Build ::
  "('ctx, 'e, 'st, 'ini, 'syn) DataSystemConfigurationBuilder \<Rightarrow> 'ctx \<Rightarrow>
   ('st, 'ini, 'syn) DataSystemConfiguration \<times> 'e BuildError option \<times> BuildCall list" where
  "Build d ctx =
     (if secondarySyncBuilder d \<noteq> None \<and> primarySyncBuilder d = None
      then (emptyDataSystemConfiguration, Some ErrSecondaryWithoutPrimary, [])
      else
        (case buildStore d ctx (config d) of
           (Inl err, tr1) \<Rightarrow> (emptyDataSystemConfiguration, Some err, tr1)
         | (Inr conf1, tr1) \<Rightarrow>
        (case buildInitializers ctx 0 (initializerBuilders d) (Initializers conf1) tr1 of
           (Inl err, tr2) \<Rightarrow> (emptyDataSystemConfiguration, Some err, tr2)
         | (Inr inits, tr2) \<Rightarrow>
        (case buildPrimary d ctx (conf1\<lparr>Initializers := inits\<rparr>) of
           (Inl err, tr3) \<Rightarrow> (emptyDataSystemConfiguration, Some err, tr2 @ tr3)
         | (Inr conf3, tr3) \<Rightarrow>
        (case buildSecondary d ctx conf3 of
           (Inl err, tr4) \<Rightarrow> (emptyDataSystemConfiguration, Some err, tr2 @ tr3 @ tr4)
         | (Inr conf4, tr4) \<Rightarrow> (conf4, None, tr2 @ tr3 @ tr4))))))"

text \<open>
  The words of the specification, for comparison with \<open>Build\<close>. The planned construction
  steps in the specified order: the store if one is configured, every initializer slot in
  list order, the primary, the secondary.
\<close>

definition buildPlan ::
  "('ctx, 'e, 'st, 'ini, 'syn) DataSystemConfigurationBuilder \<Rightarrow> BuildCall list" where
  "buildPlan d =
     (if storeBuilder d = None then [] else [StoreBuild]) @
     map InitializerBuild [0..<length (initializerBuilders d)] @
     (if primarySyncBuilder d = None then [] else [PrimaryBuild]) @
     (if secondarySyncBuilder d = None then [] else [SecondaryBuild])"

text \<open>What a configurer (or a nil slot) yields as an error, if anything.\<close>

definition configurerError :: "'ctx \<Rightarrow> ('ctx, 'e, 'a) ComponentConfigurer option \<Rightarrow> 'e option" where
  "configurerError ctx b =
     (case b of None \<Rightarrow> None
      | Some f \<Rightarrow> (case f ctx of Inl e \<Rightarrow> Some e | Inr x \<Rightarrow> None))"

text \<open>
  The error a planned step ends the build with, if any: a configurer's error, or the
  nil-initializer error of an empty slot.
\<close>

fun stepError ::
  "('ctx, 'e, 'st, 'ini, 'syn) DataSystemConfigurationBuilder \<Rightarrow> 'ctx \<Rightarrow> BuildCall \<Rightarrow>
   'e BuildError option" where
  "stepError d ctx StoreBuild = map_option ErrComponent (configurerError ctx (storeBuilder d))"
| "stepError d ctx (InitializerBuild i) =
     (if i < length (initializerBuilders d)
      then (case initializerBuilders d ! i of
              None \<Rightarrow> Some (ErrInitializerNil i)
            | Some f \<Rightarrow> map_option ErrComponent (configurerError ctx (Some f)))
      else None)"
| "stepError d ctx PrimaryBuild = map_option ErrComponent (configurerError ctx (primarySyncBuilder d))"
| "stepError d ctx SecondaryBuild =
     map_option ErrComponent (configurerError ctx (secondarySyncBuilder d))"

text \<open>A planned step that is an initializer slot holding a nil configurer.\<close>

fun nilSlot ::
  "('ctx, 'e, 'st, 'ini, 'syn) DataSystemConfigurationBuilder \<Rightarrow> BuildCall \<Rightarrow> bool" where
  "nilSlot d (InitializerBuild i) =
     (i < length (initializerBuilders d) \<and> initializerBuilders d ! i = None)"
| "nilSlot d StoreBuild = False"
| "nilSlot d PrimaryBuild = False"
| "nilSlot d SecondaryBuild = False"

text \<open>
  Constructing in the order of a plan, where the first step with an error aborts the build
  with that step's error: the result is the error (if any) and the constructions made, in
  order. A nil slot constructs nothing.
\<close>

fun runPlan ::
  "(BuildCall \<Rightarrow> 'x option) \<Rightarrow> (BuildCall \<Rightarrow> bool) \<Rightarrow> BuildCall list \<Rightarrow>
   'x option \<times> BuildCall list" where
  "runPlan err nil [] = (None, [])"
| "runPlan err nil (c # cs) =
     (case err c of
        Some e \<Rightarrow> (Some e, if nil c then [] else [c])
      | None \<Rightarrow> (fst (runPlan err nil cs), c # snd (runPlan err nil cs)))"

text \<open>The error of a result, if it is one.\<close>

definition errOf :: "('x + 'a) \<Rightarrow> 'x option" where
  "errOf r = (case r of Inl e \<Rightarrow> Some e | Inr x \<Rightarrow> None)"

text \<open>
  Two builders to run \<open>Build\<close> on: one with a secondary synchronizer and no primary, and
  one with a store, three initializers of which the second fails, and a primary.
\<close>

definition builderSecondaryOnly :: "(unit, string, nat, nat, nat) DataSystemConfigurationBuilder" where
  "builderSecondaryOnly =
     \<lparr>storeBuilder = Some (\<lambda>u. Inr 7), storeMode = DataStoreModeReadWrite,
      initializerBuilders = [Some (\<lambda>u. Inr 1)],
      primarySyncBuilder = None, secondarySyncBuilder = Some (\<lambda>u. Inr 5),
      config = emptyDataSystemConfiguration\<rparr>"

definition builderFailingInitializer :: "(unit, string, nat, nat, nat) DataSystemConfigurationBuilder" where
  "builderFailingInitializer =
     \<lparr>storeBuilder = Some (\<lambda>u. Inr 7), storeMode = DataStoreModeReadWrite,
      initializerBuilders = [Some (\<lambda>u. Inr 1), Some (\<lambda>u. Inl ''boom''), Some (\<lambda>u. Inr 3)],
      primarySyncBuilder = Some (\<lambda>u. Inr 5), secondarySyncBuilder = None,
      config = emptyDataSystemConfiguration\<rparr>"

section \<open>Collaborators of the synchronizers\<close>

text \<open>
  The data source states and error kinds are declared in the \<^verbatim>\<open>interfaces\<close> package, outside the
  source files; the constructors are the constants the code names, and \<open>DataSourceErrorKindNone\<close>
  is the zero value of the kind in \<^verbatim>\<open>DataSourceErrorInfo{}\<close>. The \<^verbatim>\<open>Time\<close> field (a wall-clock
  reading) is left out. The field \<^verbatim>\<open>Kind\<close> is named \<open>ErrorKind\<close> here.
\<close>

datatype DataSourceState = DataSourceStateOff | DataSourceStateInterrupted | DataSourceStateValid

datatype DataSourceErrorKind =
    DataSourceErrorKindNone
  | DataSourceErrorKindInvalidData
  | DataSourceErrorKindNetworkError
  | DataSourceErrorKindErrorResponse
  | DataSourceErrorKindUnknown

record DataSourceErrorInfo =
  ErrorKind :: DataSourceErrorKind
  StatusCode :: int
  Message :: string

definition noErrorInfo :: DataSourceErrorInfo where
  "noErrorInfo = \<lparr>ErrorKind = DataSourceErrorKindNone, StatusCode = 0, Message = []\<rparr>"

text \<open>The calls a \<^verbatim>\<open>DataDestination\<close> receives, with their arguments.\<close>

datatype DestinationCall =
    SetBasis "Change list" Selector bool
  | ApplyDelta "Change list" Selector bool

text \<open>
  What both processors share, and what they do to their collaborators: the calls made on
  the data destination and on the status reporter, in order; the \<^verbatim>\<open>closeWhenReady\<close> channel
  (closed or not); whether the goroutine has panicked (closing a closed channel panics);
  the \<^verbatim>\<open>isInitialized\<close> flag; the two \<^verbatim>\<open>sync.Once\<close> guards (done or not; \<^verbatim>\<open>readyOnce\<close> is a field
  of the stream processor and a local of the polling goroutine); and whether the
  goroutine started by \<^verbatim>\<open>Sync\<close> has returned.
\<close>

record Processor =
  destinationCalls :: "DestinationCall list"
  statusUpdates :: "(DataSourceState \<times> DataSourceErrorInfo) list"
  closeWhenReady :: bool
  panicked :: bool
  isInitialized :: bool
  readyOnce :: bool
  closeOnce :: bool
  returned :: bool

definition UpdateStatus ::
  "DataSourceState \<Rightarrow> DataSourceErrorInfo \<Rightarrow> 'a Processor_scheme \<Rightarrow> 'a Processor_scheme" where
  "UpdateStatus st info p = p\<lparr>statusUpdates := statusUpdates p @ [(st, info)]\<rparr>"

definition callDestination :: "DestinationCall \<Rightarrow> 'a Processor_scheme \<Rightarrow> 'a Processor_scheme" where
  "callDestination c p = p\<lparr>destinationCalls := destinationCalls p @ [c]\<rparr>"

text \<open>\<^verbatim>\<open>close(closeWhenReady)\<close>: closing a channel that is already closed panics.\<close>

definition closeReady :: "'a Processor_scheme \<Rightarrow> 'a Processor_scheme" where
  "closeReady p = (if closeWhenReady p then p\<lparr>panicked := True\<rparr> else p\<lparr>closeWhenReady := True\<rparr>)"

text \<open>\<^verbatim>\<open>readyOnce.Do(func() { close(closeWhenReady) })\<close>.\<close>

definition readyOnceDo :: "'a Processor_scheme \<Rightarrow> 'a Processor_scheme" where
  "readyOnceDo p = (if readyOnce p then p else closeReady (p\<lparr>readyOnce := True\<rparr>))"

text \<open>
  The switch on the intent code that both synchronizers apply to a finished change set:
  one destination call, or none.
\<close>

definition dispatchChangeSet :: "ChangeSet \<Rightarrow> 'a Processor_scheme \<Rightarrow> 'a Processor_scheme" where
  "dispatchChangeSet changeSet p =
     (case intentCode changeSet of
        IntentTransferFull \<Rightarrow>
          callDestination (SetBasis (csChanges changeSet) (selector changeSet) True) p
      | IntentTransferChanges \<Rightarrow>
          callDestination (ApplyDelta (csChanges changeSet) (selector changeSet) True) p
      | IntentNone \<Rightarrow> p
      | IntentOther c \<Rightarrow> p)"

text \<open>
  The stream events. \<^verbatim>\<open>EventName\<close> is a string type whose constants are declared outside the
  source files; \<open>EventOther\<close> is any other name. An event has a name and a data string.
  The structs the event data is decoded into are declared outside the source files too;
  their fields are the ones the code reads.
\<close>

datatype EventName =
    EventHeartbeat
  | EventServerIntent
  | EventPutObject
  | EventDeleteObject
  | EventGoodbye
  | EventError
  | EventPayloadTransferred
  | EventOther string

record Event =
  eventName :: EventName
  eventData :: string

record PutObject =
  putKind :: string
  putKey :: string
  putVersion :: int
  putObject :: "string option"

record DeleteObject =
  deleteKind :: string
  deleteKey :: string
  deleteVersion :: int

record Goodbye =
  goodbyeReason :: string
  Silent :: bool
  Catastrophe :: bool

record ErrorData =
  PayloadID :: string
  errorReason :: string

text \<open>What the error handler of the stream receives: a \<^verbatim>\<open>SubscriptionError\<close> with its HTTP status code, or any other error with its message.\<close>

datatype StreamError = SubscriptionError int | OtherStreamError string

text \<open>
  What the code takes from outside the source files, as parameters: \<^verbatim>\<open>json.Unmarshal\<close> at each
  type it is used at (an error message or the decoded value), the result of
  \<^verbatim>\<open>checkIfErrorIsRecoverableAndLog\<close> for a status code, \<^verbatim>\<open>endpoints.AddPath\<close> applied to the base
  URI and the streaming request path, and the error (if any) with which \<^verbatim>\<open>http.NewRequest\<close>
  rejects a URL.
\<close>

record Env =
  unmarshalServerIntent :: "string \<Rightarrow> string + ServerIntent"
  unmarshalPutObject :: "string \<Rightarrow> string + PutObject"
  unmarshalDeleteObject :: "string \<Rightarrow> string + DeleteObject"
  unmarshalGoodbye :: "string \<Rightarrow> string + Goodbye"
  unmarshalError :: "string \<Rightarrow> string + ErrorData"
  unmarshalSelector :: "string \<Rightarrow> string + Selector"
  checkIfErrorIsRecoverableAndLog :: "int \<Rightarrow> bool"
  addStreamingRequestPath :: "string \<Rightarrow> string"
  newRequestError :: "string \<Rightarrow> string option"

section \<open>The streaming synchronizer\<close>

text \<open>
  \<^verbatim>\<open>datasource.StreamConfig\<close>, with the three fields the code reads (the delay is a
  \<^verbatim>\<open>time.Duration\<close>, an integer of nanoseconds).
\<close>

record StreamConfig =
  URI :: string
  FilterKey :: string
  InitialReconnectDelay :: int

text \<open>
  The stream processor: the shared part, its configuration, the \<^verbatim>\<open>halt\<close> channel (closed
  or not), the request it subscribes with, and what it does to the event stream of the
  \<^verbatim>\<open>eventsource\<close> library (the number of \<^verbatim>\<open>Restart\<close> calls, and whether \<^verbatim>\<open>Close\<close> was called on
  it). A request is the URL that \<^verbatim>\<open>http.NewRequest\<close> parsed: what precedes the query, the raw
  query, and the fragment. The HTTP client, headers,
  loggers and the diagnostics of connection timing are left out.
\<close>

record Request =
  urlBeforeQuery :: string
  RawQuery :: string
  Fragment :: string

record StreamProcessor = Processor +
  cfg :: StreamConfig
  halt :: bool
  connectionRequest :: "Request option"
  streamRestarts :: nat
  streamClosed :: bool

subsection \<open>The connection request\<close>

text \<open>
  \<^verbatim>\<open>url.Parse\<close>, as far as the query goes: the fragment is cut off at the first \<open>#\<close>, and
  the raw query is what follows the first \<open>?\<close> of the rest.
\<close>

definition cut :: "char \<Rightarrow> string \<Rightarrow> string \<times> string" where
  "cut c s = (takeWhile (\<lambda>x. x \<noteq> c) s, drop 1 (dropWhile (\<lambda>x. x \<noteq> c) s))"

definition parseURL :: "string \<Rightarrow> Request" where
  "parseURL raw =
     (let (u, frag) = cut (CHR ''#'') raw;
          (rest, query) = cut (CHR ''?'') u
      in \<lparr>urlBeforeQuery = rest, RawQuery = query, Fragment = frag\<rparr>)"

definition NewRequest :: "Env \<Rightarrow> string \<Rightarrow> string + Request" where
  "NewRequest env raw =
     (case newRequestError env raw of Some e \<Rightarrow> Inl e | None \<Rightarrow> Inr (parseURL raw))"

text \<open>
  \<^verbatim>\<open>url.QueryEscape\<close>: letters, digits and \<open>- _ . ~\<close> stay, a space becomes \<open>+\<close>, every other
  byte becomes \<open>%XX\<close> in upper-case hexadecimal.
\<close>

definition unreserved :: "char \<Rightarrow> bool" where
  "unreserved c =
     (let n = (of_char c :: nat)
      in (97 \<le> n \<and> n \<le> 122) \<or> (65 \<le> n \<and> n \<le> 90) \<or> (48 \<le> n \<and> n \<le> 57)
         \<or> c = CHR ''-'' \<or> c = CHR ''_'' \<or> c = CHR ''.'' \<or> c = CHR ''~'')"

definition upperhex :: "nat \<Rightarrow> char" where
  "upperhex n = ''0123456789ABCDEF'' ! (n mod 16)"

definition escapeByte :: "char \<Rightarrow> string" where
  "escapeByte c =
     (if unreserved c then [c]
      else if c = CHR '' '' then ''+''
      else [CHR ''%'', upperhex ((of_char c :: nat) div 16), upperhex ((of_char c :: nat) mod 16)])"

definition QueryEscape :: "string \<Rightarrow> string" where
  "QueryEscape s = concat (map escapeByte s)"

text \<open>
  Lines 308 to 331 of \<^verbatim>\<open>subscribe\<close>: the request it creates, or the error of creating it.
  The basis is appended to the path string before the request is created; the filter key,
  when set, then replaces the raw query of the request's URL by \<^verbatim>\<open>url.Values{"filter": ...}.Encode()\<close>.
\<close>

definition subscribeRequest :: "Env \<Rightarrow> StreamConfig \<Rightarrow> Selector \<Rightarrow> string + Request" where
  "subscribeRequest env c sel =
     (let path = addStreamingRequestPath env (URI c);
          path = (if IsDefined sel then path @ ''?basis='' @ state sel else path)
      in case NewRequest env path of
           Inl reqErr \<Rightarrow> Inl reqErr
         | Inr req \<Rightarrow>
             Inr (if FilterKey c \<noteq> []
                  then req\<lparr>RawQuery := QueryEscape ''filter'' @ ''='' @ QueryEscape (FilterKey c)\<rparr>
                  else req))"

text \<open>
  Reading a query parameter of a raw query: the pieces between \<open>&\<close>, each cut at its
  first \<open>=\<close>; the first piece with the key gives the value (no unescaping is done here).
\<close>

fun splitOn :: "char \<Rightarrow> string \<Rightarrow> string list" where
  "splitOn c [] = [] # []"
| "splitOn c (x # xs) =
     (if x = c then [] # splitOn c xs
      else (case splitOn c xs of [] \<Rightarrow> [x] # [] | y # ys \<Rightarrow> (x # y) # ys))"

definition queryParam :: "string \<Rightarrow> string \<Rightarrow> string option" where
  "queryParam key raw = map_of (map (cut (CHR ''='')) (splitOn (CHR ''&'') raw)) key"

subsection \<open>Events\<close>

text \<open>\<^verbatim>\<open>setInitializedAndNotifyClient\<close>.\<close>

definition setInitializedAndNotifyClient :: "bool \<Rightarrow> StreamProcessor \<Rightarrow> StreamProcessor" where
  "setInitializedAndNotifyClient success sp =
     readyOnceDo (if success then sp\<lparr>isInitialized := True\<rparr> else sp)"

text \<open>
  The closure \<^verbatim>\<open>gotMalformedEvent\<close> of the event loop. It and the switch below yield the
  loop's variables after them: the change-set builder, \<^verbatim>\<open>processedEvent\<close>, \<^verbatim>\<open>shouldRestart\<close>,
  and the processor.
\<close>

definition gotMalformedEvent ::
  "string \<Rightarrow> StreamProcessor \<Rightarrow> ChangeSetBuilder \<times> bool \<times> bool \<times> StreamProcessor" where
  "gotMalformedEvent err sp =
     (NewChangeSetBuilder, False, True,
      UpdateStatus DataSourceStateInterrupted
        \<lparr>ErrorKind = DataSourceErrorKindInvalidData, StatusCode = 0, Message = err\<rparr> sp)"

text \<open>The \<^verbatim>\<open>switch fdv2proto.EventName(event.Event())\<close> of \<^verbatim>\<open>consumeStream\<close>.\<close>

definition switchEvent ::
  "Env \<Rightarrow> Event \<Rightarrow> ChangeSetBuilder \<Rightarrow> StreamProcessor \<Rightarrow>
   ChangeSetBuilder \<times> bool \<times> bool \<times> StreamProcessor" where
  "switchEvent env event changeSetBuilder sp =
     (case eventName event of
        EventHeartbeat \<Rightarrow> (changeSetBuilder, True, False, sp)
      | EventServerIntent \<Rightarrow>
          (case unmarshalServerIntent env (eventData event) of
             Inl err \<Rightarrow> gotMalformedEvent err sp
           | Inr serverIntent \<Rightarrow>
               if Code (Payload serverIntent) = IntentNone
               then (changeSetBuilder, True, False, setInitializedAndNotifyClient True sp)
               else (case Start serverIntent changeSetBuilder of
                       (b, Some err) \<Rightarrow> gotMalformedEvent err sp
                     | (b, None) \<Rightarrow> (b, True, False, sp)))
      | EventPutObject \<Rightarrow>
          (case unmarshalPutObject env (eventData event) of
             Inl err \<Rightarrow> gotMalformedEvent err sp
           | Inr p \<Rightarrow>
               (AddPut (putKind p) (putKey p) (putVersion p) (putObject p) changeSetBuilder,
                True, False, sp))
      | EventDeleteObject \<Rightarrow>
          (case unmarshalDeleteObject env (eventData event) of
             Inl err \<Rightarrow> gotMalformedEvent err sp
           | Inr d \<Rightarrow>
               (AddDelete (deleteKind d) (deleteKey d) (deleteVersion d) changeSetBuilder,
                True, False, sp))
      | EventGoodbye \<Rightarrow>
          (case unmarshalGoodbye env (eventData event) of
             Inl err \<Rightarrow> gotMalformedEvent err sp
           | Inr goodbye \<Rightarrow> (changeSetBuilder, True, False, sp))
      | EventError \<Rightarrow>
          (case unmarshalError env (eventData event) of
             Inl err \<Rightarrow> gotMalformedEvent err sp
           | Inr errorData \<Rightarrow> (NewChangeSetBuilder, True, False, sp))
      | EventPayloadTransferred \<Rightarrow>
          (case unmarshalSelector env (eventData event) of
             Inl err \<Rightarrow> gotMalformedEvent err sp
           | Inr sel \<Rightarrow>
               (case Finish sel changeSetBuilder of
                  (Inl err, b) \<Rightarrow> gotMalformedEvent err sp
                | (Inr changeSet, b) \<Rightarrow>
                    (b, True, False,
                     setInitializedAndNotifyClient True (dispatchChangeSet changeSet sp))))
      | EventOther n \<Rightarrow> (changeSetBuilder, True, False, sp))"

text \<open>
  One received event: the switch, then the Valid status if \<^verbatim>\<open>processedEvent\<close>, then the
  restart of the stream if \<^verbatim>\<open>shouldRestart\<close>. A panic inside the switch ends the goroutine
  there.
\<close>

definition handleEvent ::
  "Env \<Rightarrow> Event \<Rightarrow> ChangeSetBuilder \<times> StreamProcessor \<Rightarrow> ChangeSetBuilder \<times> StreamProcessor" where
  "handleEvent env event bs =
     (case switchEvent env event (fst bs) (snd bs) of
        (b, processedEvent, shouldRestart, sp) \<Rightarrow>
          if panicked sp then (b, sp\<lparr>returned := True\<rparr>)
          else
            (let sp = (if processedEvent
                       then UpdateStatus DataSourceStateValid noErrorInfo sp else sp);
                 sp = (if shouldRestart
                       then sp\<lparr>streamRestarts := streamRestarts sp + 1\<rparr> else sp)
             in (b, sp)))"

subsection \<open>The error handler, Close, and the event loop\<close>

text \<open>
  The closure \<^verbatim>\<open>errorHandler\<close> of \<^verbatim>\<open>subscribe\<close>: the processor after it, and the \<^verbatim>\<open>CloseNow\<close> of its
  result.
\<close>

definition errorHandler :: "Env \<Rightarrow> StreamError \<Rightarrow> StreamProcessor \<Rightarrow> StreamProcessor \<times> bool" where
  "errorHandler env err sp =
     (case err of
        SubscriptionError code \<Rightarrow>
          (let errorInfo = \<lparr>ErrorKind = DataSourceErrorKindErrorResponse, StatusCode = code,
                            Message = []\<rparr>
           in if checkIfErrorIsRecoverableAndLog env code
              then (UpdateStatus DataSourceStateInterrupted errorInfo sp, False)
              else (UpdateStatus DataSourceStateOff errorInfo sp, True))
      | OtherStreamError msg \<Rightarrow>
          (UpdateStatus DataSourceStateInterrupted
             \<lparr>ErrorKind = DataSourceErrorKindNetworkError, StatusCode = 0, Message = msg\<rparr> sp,
           False))"

text \<open>\<^verbatim>\<open>StreamProcessor.Close\<close>: the processor after it, and the error it returns (always nil).\<close>

definition StreamProcessor_Close :: "StreamProcessor \<Rightarrow> StreamProcessor \<times> string option" where
  "StreamProcessor_Close sp =
     (if closeOnce sp then (sp, None)
      else (UpdateStatus DataSourceStateOff noErrorInfo (sp\<lparr>closeOnce := True, halt := True\<rparr>),
            None))"

text \<open>
  What other goroutines do while the goroutine of \<^verbatim>\<open>subscribe\<close> runs: the event source calls
  the error handler, or somebody calls \<^verbatim>\<open>Close\<close>. They are interleaved with the loop between
  two of its iterations.
\<close>

datatype Concurrent = ErrorHandlerCalled StreamError | CloseCalled

definition concurrently :: "Env \<Rightarrow> Concurrent \<Rightarrow> StreamProcessor \<Rightarrow> StreamProcessor" where
  "concurrently env c sp =
     (case c of
        ErrorHandlerCalled err \<Rightarrow> fst (errorHandler env err sp)
      | CloseCalled \<Rightarrow> fst (StreamProcessor_Close sp))"

text \<open>
  One step of a run of \<^verbatim>\<open>consumeStream\<close>: the \<^verbatim>\<open>select\<close> receives an event, or finds the event
  channel closed, or receives from \<^verbatim>\<open>halt\<close> (which only a closed \<^verbatim>\<open>halt\<close> allows: otherwise the
  loop stays blocked), or another goroutine acts. With no step left the loop is blocked
  in its \<^verbatim>\<open>select\<close>.
\<close>

datatype StreamStep = EventReceived Event | EventsClosed | HaltReceived | Meanwhile Concurrent

fun consumeLoop ::
  "Env \<Rightarrow> StreamStep list \<Rightarrow> ChangeSetBuilder \<times> StreamProcessor \<Rightarrow>
   ChangeSetBuilder \<times> StreamProcessor" where
  "consumeLoop env [] bs = bs"
| "consumeLoop env (EventReceived event # steps) bs =
     (let bs' = handleEvent env event bs
      in if returned (snd bs') then bs' else consumeLoop env steps bs')"
| "consumeLoop env (EventsClosed # steps) bs = (fst bs, (snd bs)\<lparr>returned := True\<rparr>)"
| "consumeLoop env (HaltReceived # steps) bs =
     (if halt (snd bs) then (fst bs, (snd bs)\<lparr>streamClosed := True, returned := True\<rparr>) else bs)"
| "consumeLoop env (Meanwhile c # steps) bs =
     consumeLoop env steps (fst bs, concurrently env c (snd bs))"

definition consumeStream :: "Env \<Rightarrow> StreamStep list \<Rightarrow> StreamProcessor \<Rightarrow> StreamProcessor" where
  "consumeStream env steps sp = snd (consumeLoop env steps (NewChangeSetBuilder, sp))"

text \<open>
  \<^verbatim>\<open>subscribe\<close>. While \<^verbatim>\<open>es.SubscribeWithRequestAndOptions\<close> runs, other goroutines may act
  (\<open>during\<close>); then it fails, or gives the stream that \<^verbatim>\<open>consumeStream\<close> reads.
\<close>

datatype SubscribeOutcome = SubscribeFailed | Subscribed "StreamStep list"

definition subscribe ::
  "Env \<Rightarrow> Selector \<Rightarrow> Concurrent list \<Rightarrow> SubscribeOutcome \<Rightarrow> StreamProcessor \<Rightarrow> StreamProcessor" where
  "subscribe env sel during outcome sp =
     (case subscribeRequest env (cfg sp) sel of
        Inl reqErr \<Rightarrow>
          (closeReady
             (UpdateStatus DataSourceStateOff
                \<lparr>ErrorKind = DataSourceErrorKindUnknown, StatusCode = 0, Message = reqErr\<rparr> sp))
          \<lparr>returned := True\<rparr>
      | Inr req \<Rightarrow>
          (let sp = fold (concurrently env) during (sp\<lparr>connectionRequest := Some req\<rparr>)
           in case outcome of
                SubscribeFailed \<Rightarrow> (closeReady sp)\<lparr>returned := True\<rparr>
              | Subscribed steps \<Rightarrow> consumeStream env steps sp))"

text \<open>\<^verbatim>\<open>Sync\<close> starts \<^verbatim>\<open>subscribe\<close> in a goroutine of its own.\<close>

definition StreamProcessor_Sync ::
  "Env \<Rightarrow> Selector \<Rightarrow> Concurrent list \<Rightarrow> SubscribeOutcome \<Rightarrow> StreamProcessor \<Rightarrow> StreamProcessor" where
  "StreamProcessor_Sync env sel during outcome sp = subscribe env sel during outcome sp"

text \<open>
  \<^verbatim>\<open>NewStreamProcessor\<close>, and the channel a caller passes to \<^verbatim>\<open>Sync\<close>: open, with nothing done
  yet.
\<close>

definition NewStreamProcessor :: "StreamConfig \<Rightarrow> StreamProcessor" where
  "NewStreamProcessor c =
     \<lparr>destinationCalls = [], statusUpdates = [], closeWhenReady = False, panicked = False,
      isInitialized = False, readyOnce = False, closeOnce = False, returned = False,
      cfg = c, halt = False, connectionRequest = None, streamRestarts = 0,
      streamClosed = False\<rparr>"

text \<open>
  \<^verbatim>\<open>subsystems.Basis\<close> (the field \<^verbatim>\<open>Selector\<close> is named \<open>BasisSelector\<close> here), and
  \<^verbatim>\<open>StreamProcessor.Fetch\<close>: the basis pointer (nil is \<open>None\<close>) and the error.
\<close>

record Basis =
  Events :: "Change list"
  BasisSelector :: Selector
  Persist :: bool

definition StreamProcessor_Fetch :: "'ctx \<Rightarrow> Basis option \<times> string option" where
  "StreamProcessor_Fetch ctx = (None, Some ''StreamProcessor does not implement Fetch capability'')"

section \<open>The polling synchronizer\<close>

text \<open>
  The errors of \<^verbatim>\<open>PollingRequester.Request\<close>, by the types the loop distinguishes:
  \<^verbatim>\<open>httpStatusError\<close> with its code, \<^verbatim>\<open>malformedJSONError\<close>, and any other error, the last two
  with their messages.
\<close>

datatype PollError = httpStatusError int | malformedJSONError string | otherError string

text \<open>
  The polling processor: the shared part, the \<^verbatim>\<open>setInitializedOnce\<close> guard, the \<^verbatim>\<open>quit\<close>
  channel (closed or not), and the number of calls made to the requester.
\<close>

record PollingProcessor = Processor +
  setInitializedOnce :: bool
  quit :: bool
  requests :: nat

text \<open>
  \<^verbatim>\<open>PollingProcessor.Fetch\<close>, given what \<^verbatim>\<open>pp.requester.Request()\<close> returns.
\<close>

definition PollingProcessor_Fetch ::
  "(PollError + ChangeSet) \<Rightarrow> 'ctx \<Rightarrow> Basis option \<times> PollError option" where
  "PollingProcessor_Fetch request ctx =
     (case request of
        Inl err \<Rightarrow> (None, Some err)
      | Inr basis \<Rightarrow>
          (Some \<lparr>Events = csChanges basis, BasisSelector = selector basis, Persist = True\<rparr>,
           None))"

text \<open>\<^verbatim>\<open>poll\<close>, given what the request returns: the error it returns, and the processor.\<close>

definition poll ::
  "(PollError + ChangeSet) \<Rightarrow> PollingProcessor \<Rightarrow> PollError option \<times> PollingProcessor" where
  "poll request pp =
     (let pp = pp\<lparr>requests := requests pp + 1\<rparr>
      in case request of
           Inl err \<Rightarrow> (Some err, pp)
         | Inr changeSet \<Rightarrow> (None, dispatchChangeSet changeSet pp))"

text \<open>\<^verbatim>\<open>PollingProcessor.Close\<close>.\<close>

definition PollingProcessor_Close :: "PollingProcessor \<Rightarrow> PollingProcessor \<times> string option" where
  "PollingProcessor_Close pp =
     (if closeOnce pp then (pp, None) else (pp\<lparr>closeOnce := True, quit := True\<rparr>, None))"

text \<open>
  Leaving the goroutine of \<^verbatim>\<open>Sync\<close>: the deferred \<^verbatim>\<open>notifyReady()\<close> runs (and the ticker is
  stopped).
\<close>

definition exitSync :: "PollingProcessor \<Rightarrow> PollingProcessor" where
  "exitSync pp = (readyOnceDo pp)\<lparr>returned := True\<rparr>"

text \<open>\<^verbatim>\<open>pp.setInitializedOnce.Do(func() { ...; notifyReady() })\<close>.\<close>

definition setInitializedOnceDo :: "PollingProcessor \<Rightarrow> PollingProcessor" where
  "setInitializedOnceDo pp =
     (if setInitializedOnce pp then pp
      else readyOnceDo (pp\<lparr>setInitializedOnce := True, isInitialized := True\<rparr>))"

text \<open>
  One step of a run of the goroutine of \<^verbatim>\<open>Sync\<close>: the \<^verbatim>\<open>select\<close> receives from \<^verbatim>\<open>quit\<close> (which
  only a closed \<^verbatim>\<open>quit\<close> allows), or receives a tick, upon which \<^verbatim>\<open>poll\<close> runs and the request
  returns what the step carries, or somebody calls \<^verbatim>\<open>Close\<close> meanwhile. The ticker's timing
  is not modelled: every tick is one receive from the same ticker.
\<close>

datatype PollStep = QuitReceived | Tick "PollError + ChangeSet" | CloseMeanwhile

fun syncLoop :: "Env \<Rightarrow> PollStep list \<Rightarrow> PollingProcessor \<Rightarrow> PollingProcessor" where
  "syncLoop env [] pp = pp"
| "syncLoop env (QuitReceived # steps) pp = (if quit pp then exitSync pp else pp)"
| "syncLoop env (CloseMeanwhile # steps) pp = syncLoop env steps (fst (PollingProcessor_Close pp))"
| "syncLoop env (Tick request # steps) pp =
     (case poll request pp of
        (Some err, pp) \<Rightarrow>
          (case err of
             httpStatusError code \<Rightarrow>
               (let errorInfo = \<lparr>ErrorKind = DataSourceErrorKindErrorResponse,
                                 StatusCode = code, Message = []\<rparr>
                in if checkIfErrorIsRecoverableAndLog env code
                   then syncLoop env steps (UpdateStatus DataSourceStateInterrupted errorInfo pp)
                   else exitSync (readyOnceDo (UpdateStatus DataSourceStateOff errorInfo pp)))
           | malformedJSONError msg \<Rightarrow>
               syncLoop env steps
                 (UpdateStatus DataSourceStateInterrupted
                    \<lparr>ErrorKind = DataSourceErrorKindInvalidData, StatusCode = 0, Message = msg\<rparr> pp)
           | otherError msg \<Rightarrow>
               syncLoop env steps
                 (UpdateStatus DataSourceStateInterrupted
                    \<lparr>ErrorKind = DataSourceErrorKindNetworkError, StatusCode = 0, Message = msg\<rparr> pp))
      | (None, pp) \<Rightarrow>
          (let pp = setInitializedOnceDo (UpdateStatus DataSourceStateValid noErrorInfo pp)
           in if panicked pp then exitSync pp else syncLoop env steps pp))"

text \<open>
  \<^verbatim>\<open>Sync\<close>: the goroutine has a \<^verbatim>\<open>readyOnce\<close> of its own, new at every call.
\<close>

definition PollingProcessor_Sync :: "Env \<Rightarrow> PollStep list \<Rightarrow> PollingProcessor \<Rightarrow> PollingProcessor" where
  "PollingProcessor_Sync env steps pp = syncLoop env steps (pp\<lparr>readyOnce := False\<rparr>)"

definition newPollingProcessor :: PollingProcessor where
  "newPollingProcessor =
     \<lparr>destinationCalls = [], statusUpdates = [], closeWhenReady = False, panicked = False,
      isInitialized = False, readyOnce = False, closeOnce = False, returned = False,
      setInitializedOnce = False, quit = False, requests = 0\<rparr>"

section \<open>Notions of the specification, and inputs to run the model on\<close>



definition errorResponse :: "int \<Rightarrow> DataSourceErrorInfo" where
  "errorResponse code = \<lparr>ErrorKind = DataSourceErrorKindErrorResponse, StatusCode = code, Message = []\<rparr>"

definition putChange :: "PutObject \<Rightarrow> Change" where
  "putChange p =
     \<lparr>Action = ChangeTypePut, Kind = putKind p, Key = putKey p, Version = putVersion p,
      Object = putObject p\<rparr>"

text \<open>
  An environment to run the model in. Its decoders know a few event bodies by name and
  reject every other body; status codes from 400 to 499 other than 400, 408 and 429 are
  not recoverable; the streaming path is appended to the base URI; a URL with the DEL
  byte is rejected.
\<close>

definition intentWith :: "IntentCode \<Rightarrow> ServerIntent" where
  "intentWith c = \<lparr>Payload = \<lparr>ID = ''p1'', Target = 1, Code = c, Reason = ''payload-missing''\<rparr>\<rparr>"

definition demoEnv :: Env where
  "demoEnv =
     \<lparr>unmarshalServerIntent =
        (\<lambda>d. if d = ''intent-full'' then Inr (intentWith IntentTransferFull)
             else if d = ''intent-changes'' then Inr (intentWith IntentTransferChanges)
             else if d = ''intent-none'' then Inr (intentWith IntentNone)
             else Inl ''unexpected end of JSON input''),
      unmarshalPutObject =
        (\<lambda>d. if d = ''put-A''
             then Inr \<lparr>putKind = ''flag'', putKey = ''A'', putVersion = 1, putObject = Some ''{}''\<rparr>
             else if d = ''put-B''
             then Inr \<lparr>putKind = ''flag'', putKey = ''B'', putVersion = 1, putObject = Some ''{}''\<rparr>
             else Inl ''unexpected end of JSON input''),
      unmarshalDeleteObject =
        (\<lambda>d. if d = ''delete-A''
             then Inr \<lparr>deleteKind = ''flag'', deleteKey = ''A'', deleteVersion = 2\<rparr>
             else Inl ''unexpected end of JSON input''),
      unmarshalGoodbye = (\<lambda>d. Inl ''unexpected end of JSON input''),
      unmarshalError = (\<lambda>d. Inl ''unexpected end of JSON input''),
      unmarshalSelector =
        (\<lambda>d. if d = ''selector-s1'' then Inr (NewSelector ''s1'' 1)
             else Inl ''unmarshal selector: missing state field''),
      checkIfErrorIsRecoverableAndLog =
        (\<lambda>code. if 400 \<le> code \<and> code < 500 then code = 400 \<or> code = 408 \<or> code = 429 else True),
      addStreamingRequestPath = (\<lambda>uri. uri @ ''/sdk/stream''),
      newRequestError =
        (\<lambda>url. if CHR 0x7F \<in> set url then Some ''net/url: invalid control character in URL''
               else None)\<rparr>"

definition demoConfig :: StreamConfig where
  "demoConfig = \<lparr>URI = ''http://ld'', FilterKey = [], InitialReconnectDelay = 0\<rparr>"

definition demoFilterConfig :: StreamConfig where
  "demoFilterConfig = \<lparr>URI = ''http://ld'', FilterKey = ''f'', InitialReconnectDelay = 0\<rparr>"

definition demoEvent :: "EventName \<Rightarrow> string \<Rightarrow> Event" where
  "demoEvent n d = \<lparr>eventName = n, eventData = d\<rparr>"

text \<open>
  The one-shot guard and the channel agree, and nothing has panicked: the ready channel is
  closed exactly when \<^verbatim>\<open>readyOnce\<close> is done. A second \<^verbatim>\<open>close\<close> of the channel would set
  \<open>panicked\<close>, so a run that has not panicked has closed the channel at most once.
\<close>

definition readyInv :: "'a Processor_scheme \<Rightarrow> bool" where
  "readyInv p = (\<not> panicked p \<and> readyOnce p = closeWhenReady p)"

text \<open>
  A run of the stream processor in which the first connection is refused with status 401
  and the subscription fails.
\<close>

definition refusedSync :: StreamProcessor where
  "refusedSync =
     StreamProcessor_Sync demoEnv NoSelector [ErrorHandlerCalled (SubscriptionError 401)]
       SubscribeFailed (NewStreamProcessor demoConfig)"

section \<open>Properties of the change-set builder\<close>

lemma addCall_intent: "intent (addCall x c) = intent c"
  by (cases x) (simp_all add: AddPut_def AddDelete_def)

lemma addCall_changes: "changes (addCall x c) = changes c @ [changeOf x]"
  by (cases x) (simp_all add: AddPut_def AddDelete_def)

lemma addCalls_intent: "intent (addCalls xs c) = intent c"
  by (induction xs arbitrary: c) (simp_all add: addCall_intent)

lemma addCalls_changes: "changes (addCalls xs c) = changes c @ map changeOf xs"
  by (induction xs arbitrary: c) (simp_all add: addCall_changes)

lemma Finish_no_intent:
  "intent c = None \<Longrightarrow>
   Finish sel c = (Inl ''changeset: cannot complete without a server-intent'', c)"
  by (simp add: Finish_def)

lemma Finish_full:
  "intent c = Some i \<Longrightarrow> Code (Payload i) = IntentTransferFull \<Longrightarrow>
   Finish sel c =
     (Inr \<lparr>intentCode = IntentTransferFull, csChanges = changes c, selector = sel\<rparr>,
      c\<lparr>intent := Some (i\<lparr>Payload := (Payload i)\<lparr>Code := IntentTransferChanges\<rparr>\<rparr>),
        changes := []\<rparr>)"
  by (simp add: Finish_def Let_def)

lemma Finish_other:
  "intent c = Some i \<Longrightarrow> Code (Payload i) \<noteq> IntentTransferFull \<Longrightarrow>
   Finish sel c =
     (Inr \<lparr>intentCode = Code (Payload i), csChanges = changes c, selector = sel\<rparr>,
      c\<lparr>changes := []\<rparr>)"
  by (simp add: Finish_def Let_def)

text \<open>
  C7. Let a builder be started with a full-transfer intent and then receive any calls of
  AddPut and AddDelete. Finish returns a change set with code full-transfer, the changes
  added since Start and the given selector, and leaves the builder with no changes. After
  any further AddPut and AddDelete calls, and no Start, a second Finish succeeds with code
  incremental-transfer and exactly the changes added after the first Finish. A builder
  that was never started (whatever was added to it) makes Finish return an error and no
  change set, and Finish leaves that builder as it was.
\<close>

theorem C7_Finish_full_then_incremental:
  assumes "Code (Payload i) = IntentTransferFull"
  shows "Finish sel (addCalls xs (fst (Start i c0))) =
           (Inr \<lparr>intentCode = IntentTransferFull, csChanges = map changeOf xs, selector = sel\<rparr>,
            \<lparr>intent = Some (i\<lparr>Payload := (Payload i)\<lparr>Code := IntentTransferChanges\<rparr>\<rparr>),
             changes = []\<rparr>)
       \<and> fst (Finish sel' (addCalls ys (snd (Finish sel (addCalls xs (fst (Start i c0))))))) =
           Inr \<lparr>intentCode = IntentTransferChanges, csChanges = map changeOf ys, selector = sel'\<rparr>
       \<and> Finish sel (addCalls xs NewChangeSetBuilder) =
           (Inl ''changeset: cannot complete without a server-intent'',
            addCalls xs NewChangeSetBuilder)"
proof -
  let ?b = "addCalls xs (fst (Start i c0))"
  have bi: "intent ?b = Some i" by (simp add: addCalls_intent Start_def)
  have bc: "changes ?b = map changeOf xs" by (simp add: addCalls_changes Start_def)
  have f1: "Finish sel ?b =
      (Inr \<lparr>intentCode = IntentTransferFull, csChanges = map changeOf xs, selector = sel\<rparr>,
       \<lparr>intent = Some (i\<lparr>Payload := (Payload i)\<lparr>Code := IntentTransferChanges\<rparr>\<rparr>),
        changes = []\<rparr>)"
    using Finish_full [OF bi assms, of sel] bc by simp
  let ?b1 = "\<lparr>intent = Some (i\<lparr>Payload := (Payload i)\<lparr>Code := IntentTransferChanges\<rparr>\<rparr>),
              changes = []\<rparr>"
  have f2: "fst (Finish sel' (addCalls ys ?b1)) =
      Inr \<lparr>intentCode = IntentTransferChanges, csChanges = map changeOf ys, selector = sel'\<rparr>"
    by (simp add: Finish_def Let_def addCalls_intent addCalls_changes)
  have f3: "Finish sel (addCalls xs NewChangeSetBuilder) =
      (Inl ''changeset: cannot complete without a server-intent'',
       addCalls xs NewChangeSetBuilder)"
    by (rule Finish_no_intent) (simp add: addCalls_intent NewChangeSetBuilder_def)
  show ?thesis using f1 f2 f3 by simp
qed

theorem C7_witness:
  "Code (Payload \<lparr>Payload = \<lparr>ID = ''p1'', Target = 1, Code = IntentTransferFull, Reason = ''r''\<rparr>\<rparr>)
     = IntentTransferFull
   \<and> fst (Finish (NewSelector ''s2'' 2)
        (addCalls [CallAddDelete ''flag'' ''A'' 2]
          (snd (Finish (NewSelector ''s1'' 1)
            (addCalls [CallAddPut ''flag'' ''A'' 1 (Some ''{}'')]
              (fst (Start \<lparr>Payload = \<lparr>ID = ''p1'', Target = 1, Code = IntentTransferFull,
                                     Reason = ''r''\<rparr>\<rparr> NewChangeSetBuilder))))))) =
       Inr \<lparr>intentCode = IntentTransferChanges,
            csChanges = [\<lparr>Action = ChangeTypeDelete, Kind = ''flag'', Key = ''A'', Version = 2,
                          Object = None\<rparr>],
            selector = \<lparr>state = ''s2'', version = 2\<rparr>\<rparr>"
proof -
  let ?i = "\<lparr>Payload = \<lparr>ID = ''p1'', Target = 1, Code = IntentTransferFull, Reason = ''r''\<rparr>\<rparr>"
  have h: "Code (Payload ?i) = IntentTransferFull" by simp
  note c7 = C7_Finish_full_then_incremental
    [OF h, of "NewSelector ''s1'' 1" "[CallAddPut ''flag'' ''A'' 1 (Some ''{}'')]"
        NewChangeSetBuilder "NewSelector ''s2'' 2" "[CallAddDelete ''flag'' ''A'' 2]"]
  show ?thesis using h conjunct1 [OF conjunct2 [OF c7]] by (simp add: NewSelector_def)
qed

section \<open>Properties of the configuration builder\<close>

lemma runPlan_append:
  "runPlan err nil (xs @ ys) =
     (case fst (runPlan err nil xs) of
        Some e \<Rightarrow> runPlan err nil xs
      | None \<Rightarrow> (fst (runPlan err nil ys), snd (runPlan err nil xs) @ snd (runPlan err nil ys)))"
  by (induction xs) (auto split: option.splits)

lemma buildInitializers_runPlan:
  "drop i (initializerBuilders d) = bs \<Longrightarrow>
   case_sum Some (\<lambda>x. None) (fst (buildInitializers ctx i bs acc tr)) =
     fst (runPlan (stepError d ctx) (nilSlot d)
            (map InitializerBuild [i..<length (initializerBuilders d)]))
   \<and> snd (buildInitializers ctx i bs acc tr) =
       tr @ snd (runPlan (stepError d ctx) (nilSlot d)
               (map InitializerBuild [i..<length (initializerBuilders d)]))"
proof (induction bs arbitrary: i acc tr)
  case Nil
  then have "length (initializerBuilders d) \<le> i" by simp
  then show ?case by simp
next
  case (Cons b bs)
  have il: "i < length (initializerBuilders d)"
    using Cons.prems by (cases "i < length (initializerBuilders d)") auto
  have bi: "initializerBuilders d ! i = b" and dr: "drop (Suc i) (initializerBuilders d) = bs"
    using Cons.prems il by (simp_all add: Cons_nth_drop_Suc [symmetric])
  have up: "[i..<length (initializerBuilders d)] = i # [Suc i..<length (initializerBuilders d)]"
    using il by (simp add: upt_conv_Cons)
  show ?case
  proof (cases b)
    case None
    then show ?thesis using il bi by (simp add: up)
  next
    case (Some f)
    show ?thesis
    proof (cases "f ctx")
      case (Inl e)
      then show ?thesis using Some il bi by (simp add: up configurerError_def)
    next
      case (Inr x)
      show ?thesis
        using Cons.IH [OF dr, of "acc @ [x]" "tr @ [InitializerBuild i]"] Some Inr il bi
        by (simp add: up configurerError_def)
    qed
  qed
qed

lemma runPlan_single:
  "runPlan err nil [c] = (err c, if err c \<noteq> None \<and> nil c then [] else [c])"
  by (simp split: option.splits)

lemma buildStore_runPlan:
  "(errOf (fst (buildStore d ctx conf)), snd (buildStore d ctx conf)) =
   runPlan (stepError d ctx) (nilSlot d) (if storeBuilder d = None then [] else [StoreBuild])"
  by (simp add: buildStore_def errOf_def configurerError_def split: option.splits sum.splits)

lemma buildPrimary_runPlan:
  "(errOf (fst (buildPrimary d ctx conf)), snd (buildPrimary d ctx conf)) =
   runPlan (stepError d ctx) (nilSlot d) (if primarySyncBuilder d = None then [] else [PrimaryBuild])"
  by (simp add: buildPrimary_def errOf_def configurerError_def split: option.splits sum.splits)

lemma buildSecondary_runPlan:
  "(errOf (fst (buildSecondary d ctx conf)), snd (buildSecondary d ctx conf)) =
   runPlan (stepError d ctx) (nilSlot d) (if secondarySyncBuilder d = None then [] else [SecondaryBuild])"
  by (simp add: buildSecondary_def errOf_def configurerError_def split: option.splits sum.splits)

lemma buildInitializers_runPlan0:
  "(errOf (fst (buildInitializers ctx 0 (initializerBuilders d) acc tr)),
    snd (buildInitializers ctx 0 (initializerBuilders d) acc tr)) =
   (fst (runPlan (stepError d ctx) (nilSlot d)
            (map InitializerBuild [0..<length (initializerBuilders d)])),
    tr @ snd (runPlan (stepError d ctx) (nilSlot d)
            (map InitializerBuild [0..<length (initializerBuilders d)])))"
  using buildInitializers_runPlan [of 0 d "initializerBuilders d" ctx acc tr]
  by (simp add: errOf_def)

lemma Build_runPlan:
  assumes "\<not> (secondarySyncBuilder d \<noteq> None \<and> primarySyncBuilder d = None)"
  shows "snd (Build d ctx) = runPlan (stepError d ctx) (nilSlot d) (buildPlan d)"
proof -
  obtain r1 t1 where p1: "buildStore d ctx (config d) = (r1, t1)" by (cases "buildStore d ctx (config d)")
  let ?c1 = "case r1 of Inr c \<Rightarrow> c | Inl e \<Rightarrow> config d"
  obtain r2 t2 where p2: "buildInitializers ctx 0 (initializerBuilders d) (Initializers ?c1) t1 = (r2, t2)"
    by (cases "buildInitializers ctx 0 (initializerBuilders d) (Initializers ?c1) t1")
  let ?c2 = "?c1\<lparr>Initializers := case r2 of Inr c \<Rightarrow> c | Inl e \<Rightarrow> []\<rparr>"
  obtain r3 t3 where p3: "buildPrimary d ctx ?c2 = (r3, t3)" by (cases "buildPrimary d ctx ?c2")
  let ?c3 = "case r3 of Inr c \<Rightarrow> c | Inl e \<Rightarrow> config d"
  obtain r4 t4 where p4: "buildSecondary d ctx ?c3 = (r4, t4)" by (cases "buildSecondary d ctx ?c3")
  have q1: "runPlan (stepError d ctx) (nilSlot d) (if storeBuilder d = None then [] else [StoreBuild]) = (errOf r1, t1)"
    using buildStore_runPlan [of d ctx "config d"] p1 by simp
  have q2: "fst (runPlan (stepError d ctx) (nilSlot d)
            (map InitializerBuild [0..<length (initializerBuilders d)])) = errOf r2"
    and q2': "t2 = t1 @ snd (runPlan (stepError d ctx) (nilSlot d)
            (map InitializerBuild [0..<length (initializerBuilders d)]))"
    using buildInitializers_runPlan0 [of ctx d "Initializers ?c1" t1] p2 by simp_all
  have q3: "runPlan (stepError d ctx) (nilSlot d) (if primarySyncBuilder d = None then [] else [PrimaryBuild]) = (errOf r3, t3)"
    using buildPrimary_runPlan [of d ctx ?c2] p3 by simp
  have q4: "runPlan (stepError d ctx) (nilSlot d) (if secondarySyncBuilder d = None then [] else [SecondaryBuild]) = (errOf r4, t4)"
    using buildSecondary_runPlan [of d ctx ?c3] p4 by simp
  have B: "snd (Build d ctx) =
     (case r1 of Inl e \<Rightarrow> (Some e, t1) | Inr c1 \<Rightarrow>
      (case r2 of Inl e \<Rightarrow> (Some e, t2) | Inr c2 \<Rightarrow>
       (case r3 of Inl e \<Rightarrow> (Some e, t2 @ t3) | Inr c3 \<Rightarrow>
        (case r4 of Inl e \<Rightarrow> (Some e, t2 @ t3 @ t4) | Inr c4 \<Rightarrow> (None, t2 @ t3 @ t4)))))"
  proof -
    have nb: "(secondarySyncBuilder d \<noteq> None \<and> primarySyncBuilder d = None) = False"
      using assms by blast
    show ?thesis
      unfolding Build_def nb if_False using p1 p2 p3 p4
      by (cases r1; cases r2; cases r3; cases r4) simp_all
  qed
  show ?thesis
    unfolding B buildPlan_def runPlan_append q1 q2 q3 q4 q2'
    by (cases r1; cases r2; cases r3; cases r4) (simp_all add: errOf_def q2 prod_eq_iff)
qed

lemma Build_error_empty:
  "fst (snd (Build d ctx)) \<noteq> None \<Longrightarrow> fst (Build d ctx) = emptyDataSystemConfiguration"
  by (simp add: Build_def split: sum.splits prod.splits if_splits)

text \<open>
  C2. A builder with a secondary synchronizer configurer and no primary one makes Build
  return the zero configuration and the configuration error, with no configurer called:
  the trace of configurer calls is empty. For every other builder, the error and the trace
  of Build are those of constructing in the order of the plan (store, each initializer in
  list order, primary, secondary) and stopping at the first step that fails, with that
  step's error; and every error comes with the zero configuration.
\<close>

theorem C2_Build_validates_then_constructs_in_order:
  "(secondarySyncBuilder d \<noteq> None \<and> primarySyncBuilder d = None \<longrightarrow>
      Build d ctx = (emptyDataSystemConfiguration, Some ErrSecondaryWithoutPrimary, []))
   \<and> (\<not> (secondarySyncBuilder d \<noteq> None \<and> primarySyncBuilder d = None) \<longrightarrow>
      snd (Build d ctx) = runPlan (stepError d ctx) (nilSlot d) (buildPlan d)
      \<and> (fst (snd (Build d ctx)) \<noteq> None \<longrightarrow> fst (Build d ctx) = emptyDataSystemConfiguration))"
proof (intro conjI impI)
  assume "secondarySyncBuilder d \<noteq> None \<and> primarySyncBuilder d = None"
  then show "Build d ctx = (emptyDataSystemConfiguration, Some ErrSecondaryWithoutPrimary, [])"
    by (simp add: Build_def)
next
  assume "\<not> (secondarySyncBuilder d \<noteq> None \<and> primarySyncBuilder d = None)"
  then show "snd (Build d ctx) = runPlan (stepError d ctx) (nilSlot d) (buildPlan d)"
    by (rule Build_runPlan)
next
  assume "fst (snd (Build d ctx)) \<noteq> None"
  then show "fst (Build d ctx) = emptyDataSystemConfiguration"
    by (rule Build_error_empty)
qed

theorem C2_witness:
  "Build builderSecondaryOnly () =
     (emptyDataSystemConfiguration, Some ErrSecondaryWithoutPrimary, [])
   \<and> snd (Build builderFailingInitializer ()) =
       (Some (ErrComponent ''boom''), [StoreBuild, InitializerBuild 0, InitializerBuild 1])
   \<and> fst (Build builderFailingInitializer ()) = emptyDataSystemConfiguration"
proof -
  have h1: "secondarySyncBuilder builderSecondaryOnly \<noteq> None
            \<and> primarySyncBuilder builderSecondaryOnly = None"
    by (simp add: builderSecondaryOnly_def)
  have h2: "\<not> (secondarySyncBuilder builderFailingInitializer \<noteq> None
               \<and> primarySyncBuilder builderFailingInitializer = None)"
    by (simp add: builderFailingInitializer_def)
  note a = C2_Build_validates_then_constructs_in_order [of builderSecondaryOnly "()"]
  note b = C2_Build_validates_then_constructs_in_order [of builderFailingInitializer "()"]
  have r1: "Build builderSecondaryOnly () =
     (emptyDataSystemConfiguration, Some ErrSecondaryWithoutPrimary, [])"
    using a h1 by blast
  have r2: "snd (Build builderFailingInitializer ()) =
     runPlan (stepError builderFailingInitializer ()) (nilSlot builderFailingInitializer)
       (buildPlan builderFailingInitializer)"
    using b h2 by blast
  have ev: "runPlan (stepError builderFailingInitializer ()) (nilSlot builderFailingInitializer)
       (buildPlan builderFailingInitializer) =
       (Some (ErrComponent ''boom''), [StoreBuild, InitializerBuild 0, InitializerBuild 1])"
    by (simp add: buildPlan_def builderFailingInitializer_def configurerError_def upt_rec)
  have r3: "fst (Build builderFailingInitializer ()) = emptyDataSystemConfiguration"
  proof -
    have "fst (snd (Build builderFailingInitializer ())) \<noteq> None"
      by (simp add: r2 ev)
    with b h2 show ?thesis by blast
  qed
  show ?thesis using r1 r2 ev r3 by simp
qed

section \<open>Properties of the streaming synchronizer\<close>

subsection \<open>The connection request\<close>

lemma upperhex_in: "upperhex n \<in> set ''0123456789ABCDEF''"
  unfolding upperhex_def by (rule nth_mem) simp

lemma upperhex_not_amp: "upperhex n \<noteq> CHR ''&''"
  using upperhex_in [of n] by auto

lemma escapeByte_no_amp: "CHR ''&'' \<notin> set (escapeByte c)"
proof (cases "c = CHR ''&''")
  case True
  then show ?thesis by (simp add: escapeByte_def unreserved_def upperhex_def)
next
  case False
  then show ?thesis
    using upperhex_not_amp [of "of_char c div 16"] upperhex_not_amp [of "of_char c mod 16"]
    by (auto simp add: escapeByte_def)
qed

lemma QueryEscape_no_amp: "CHR ''&'' \<notin> set (QueryEscape s)"
  by (induction s) (simp_all add: QueryEscape_def escapeByte_no_amp)

lemma splitOn_none: "c \<notin> set s \<Longrightarrow> splitOn c s = [s]"
  by (induction s) auto

lemma QueryEscape_filter: "QueryEscape ''filter'' = ''filter''"
  by (simp add: QueryEscape_def escapeByte_def unreserved_def)

lemma queryParam_filter_only:
  "queryParam ''basis'' (QueryEscape ''filter'' @ ''='' @ QueryEscape k) = None"
proof -
  have "CHR ''&'' \<notin> set (''filter='' @ QueryEscape k)"
    using QueryEscape_no_amp [of k] by simp
  then have "splitOn (CHR ''&'') (''filter='' @ QueryEscape k) = [''filter='' @ QueryEscape k]"
    by (rule splitOn_none)
  then show ?thesis
    by (simp add: queryParam_def QueryEscape_filter cut_def)
qed

text \<open>
  Without a filter key, the request of the model's example configuration carries the
  selector's state as its basis parameter; with an undefined selector it carries none.
\<close>

lemma subscribeRequest_without_filter:
  "subscribeRequest demoEnv demoConfig (NewSelector ''s1'' 1) =
     Inr \<lparr>urlBeforeQuery = ''http://ld/sdk/stream'', RawQuery = ''basis=s1'', Fragment = []\<rparr>
   \<and> queryParam ''basis'' ''basis=s1'' = Some ''s1''
   \<and> subscribeRequest demoEnv demoConfig NoSelector =
     Inr \<lparr>urlBeforeQuery = ''http://ld/sdk/stream'', RawQuery = [], Fragment = []\<rparr>"
  by (simp add: subscribeRequest_def demoEnv_def demoConfig_def NewSelector_def NoSelector_def
        IsDefined_def NewRequest_def parseURL_def cut_def queryParam_def)

text \<open>
  C1. The claim fails on the code when a filter key is configured. For every
  configuration with a non-empty filter key and every selector, defined or not, the
  request that subscribe creates has the raw query \<open>filter=<escaped key>\<close> and no basis
  parameter: setting the filter replaces the query that held the basis.
\<close>

theorem C1_filter_key_replaces_basis:
  assumes "FilterKey c \<noteq> []" and "subscribeRequest env c sel = Inr req"
  shows "RawQuery req = ''filter='' @ QueryEscape (FilterKey c)
         \<and> queryParam ''basis'' (RawQuery req) = None"
proof -
  have "RawQuery req = QueryEscape ''filter'' @ ''='' @ QueryEscape (FilterKey c)"
    using assms by (auto simp add: subscribeRequest_def Let_def split: sum.splits)
  then show ?thesis using queryParam_filter_only [of "FilterKey c"]
    by (simp add: QueryEscape_filter)
qed

theorem C1_witness:
  "FilterKey demoFilterConfig \<noteq> []
   \<and> IsDefined (NewSelector ''s1'' 1)
   \<and> subscribeRequest demoEnv demoFilterConfig (NewSelector ''s1'' 1) =
       Inr \<lparr>urlBeforeQuery = ''http://ld/sdk/stream'', RawQuery = ''filter=f'', Fragment = []\<rparr>
   \<and> queryParam ''basis'' ''filter=f'' = None"
proof -
  let ?req = "\<lparr>urlBeforeQuery = ''http://ld/sdk/stream'', RawQuery = ''filter=f'', Fragment = []\<rparr>"
  have h1: "FilterKey demoFilterConfig \<noteq> []" by (simp add: demoFilterConfig_def)
  have h2: "subscribeRequest demoEnv demoFilterConfig (NewSelector ''s1'' 1) = Inr ?req"
    by (simp add: subscribeRequest_def demoEnv_def demoFilterConfig_def NewSelector_def
          NoSelector_def IsDefined_def NewRequest_def parseURL_def cut_def QueryEscape_def
          escapeByte_def unreserved_def)
  have h3: "IsDefined (NewSelector ''s1'' 1)"
    by (simp add: IsDefined_def NewSelector_def NoSelector_def)
  show ?thesis
    using h1 h2 h3 conjunct2 [OF C1_filter_key_replaces_basis [OF h1 h2]] by simp
qed

subsection \<open>Events\<close>





lemma handle_intent:
  assumes "eventName e = EventServerIntent"
      and "unmarshalServerIntent env (eventData e) = Inr si"
      and "Code (Payload si) \<noteq> IntentNone" and "\<not> panicked sp"
  shows "handleEvent env e (b, sp) =
     (\<lparr>intent = Some si, changes = []\<rparr>, UpdateStatus DataSourceStateValid noErrorInfo sp)"
  using assms
  by (simp add: handleEvent_def switchEvent_def Start_def UpdateStatus_def)

lemma handle_put:
  assumes "eventName e = EventPutObject"
      and "unmarshalPutObject env (eventData e) = Inr p" and "\<not> panicked sp"
  shows "handleEvent env e (b, sp) =
     (b\<lparr>changes := changes b @ [putChange p]\<rparr>, UpdateStatus DataSourceStateValid noErrorInfo sp)"
  using assms
  by (simp add: handleEvent_def switchEvent_def AddPut_def UpdateStatus_def putChange_def)

lemma handle_transferred:
  assumes "eventName e = EventPayloadTransferred"
      and "unmarshalSelector env (eventData e) = Inr sel"
      and "intent b = Some i"
      and "readyOnce sp = closeWhenReady sp" and "\<not> panicked sp"
  shows "handleEvent env e (b, sp) =
     (snd (Finish sel b),
      sp\<lparr>destinationCalls := destinationCalls sp @
            (case Code (Payload i) of
               IntentTransferFull \<Rightarrow> [SetBasis (changes b) sel True]
             | IntentTransferChanges \<Rightarrow> [ApplyDelta (changes b) sel True]
             | IntentNone \<Rightarrow> []
             | IntentOther c \<Rightarrow> []),
         isInitialized := True, readyOnce := True, closeWhenReady := True,
         statusUpdates := statusUpdates sp @ [(DataSourceStateValid, noErrorInfo)]\<rparr>)"
  using assms
  by (cases "Code (Payload i)")
     (simp_all add: handleEvent_def switchEvent_def Finish_def Let_def dispatchChangeSet_def
        callDestination_def setInitializedAndNotifyClient_def readyOnceDo_def closeReady_def
        UpdateStatus_def)

lemma scenario_full_transfer:
  assumes e1: "eventName e1 = EventServerIntent"
          "unmarshalServerIntent env (eventData e1) = Inr si"
          "Code (Payload si) = IntentTransferFull"
      and e2: "eventName e2 = EventPutObject" "unmarshalPutObject env (eventData e2) = Inr pA"
      and e3: "eventName e3 = EventPutObject" "unmarshalPutObject env (eventData e3) = Inr pB"
      and e4: "eventName e4 = EventPayloadTransferred"
          "unmarshalSelector env (eventData e4) = Inr sel"
  shows "consumeStream env [EventReceived e1, EventReceived e2, EventReceived e3, EventReceived e4]
           (NewStreamProcessor c) =
         (NewStreamProcessor c)
           \<lparr>destinationCalls := [SetBasis [putChange pA, putChange pB] sel True],
            statusUpdates := replicate 4 (DataSourceStateValid, noErrorInfo),
            closeWhenReady := True, isInitialized := True, readyOnce := True\<rparr>"
proof -
  let ?v = "(DataSourceStateValid, noErrorInfo)"
  let ?sp0 = "NewStreamProcessor c"
  let ?sp1 = "?sp0\<lparr>statusUpdates := [?v]\<rparr>"
  let ?sp2 = "?sp0\<lparr>statusUpdates := [?v, ?v]\<rparr>"
  let ?sp3 = "?sp0\<lparr>statusUpdates := [?v, ?v, ?v]\<rparr>"
  let ?b1 = "\<lparr>intent = Some si, changes = []\<rparr>"
  let ?b2 = "\<lparr>intent = Some si, changes = [putChange pA]\<rparr>"
  let ?b3 = "\<lparr>intent = Some si, changes = [putChange pA, putChange pB]\<rparr>"
  have ne: "Code (Payload si) \<noteq> IntentNone" using e1(3) by simp
  have s1: "handleEvent env e1 (NewChangeSetBuilder, ?sp0) = (?b1, ?sp1)"
    using handle_intent [OF e1(1) e1(2) ne, of ?sp0 NewChangeSetBuilder]
    by (simp add: NewStreamProcessor_def UpdateStatus_def)
  have s2: "handleEvent env e2 (?b1, ?sp1) = (?b2, ?sp2)"
    using handle_put [OF e2, of ?sp1 ?b1]
    by (simp add: NewStreamProcessor_def UpdateStatus_def)
  have s3: "handleEvent env e3 (?b2, ?sp2) = (?b3, ?sp3)"
    using handle_put [OF e3, of ?sp2 ?b2]
    by (simp add: NewStreamProcessor_def UpdateStatus_def)
  have s4: "snd (handleEvent env e4 (?b3, ?sp3)) =
      ?sp0\<lparr>destinationCalls := [SetBasis [putChange pA, putChange pB] sel True],
            statusUpdates := [?v, ?v, ?v, ?v],
            closeWhenReady := True, isInitialized := True, readyOnce := True\<rparr>"
    using handle_transferred [OF e4, of ?b3 si ?sp3] e1(3)
    by (simp add: NewStreamProcessor_def)
  have r: "\<not> returned ?sp1" "\<not> returned ?sp2" "\<not> returned ?sp3"
    by (simp_all add: NewStreamProcessor_def)
  have "consumeLoop env [EventReceived e1, EventReceived e2, EventReceived e3, EventReceived e4]
          (NewChangeSetBuilder, ?sp0) = handleEvent env e4 (?b3, ?sp3)"
    using r by (simp add: s1 s2 s3 Let_def)
  then show ?thesis
    by (simp add: consumeStream_def s4 numeral_eq_Suc)
qed

text \<open>
  C4. A new stream processor receives a well-formed server-intent with code
  full-transfer, well-formed put-object events for key A at version 1 and key B at
  version 1, and a well-formed payload-transferred with selector (s1, 1). Then the
  destination has received exactly one call, SetBasis with the two puts in that order,
  the selector (s1, 1) and persist true, and no ApplyDelta; the processor is initialized
  and the ready channel is closed; Valid was reported after each of the four events. In
  general, a well-formed payload-transferred event on a builder that holds an intent adds
  to the destination's calls one SetBasis for code full-transfer, one ApplyDelta for code
  incremental-transfer and nothing for any other code, each with the builder's changes,
  the event's selector and persist true, and then marks the processor initialized and
  closes the ready channel.
\<close>

theorem C4_full_transfer_scenario_and_dispatch:
  assumes "eventName e1 = EventServerIntent"
      and "unmarshalServerIntent env (eventData e1) = Inr si"
      and "Code (Payload si) = IntentTransferFull"
      and "eventName e2 = EventPutObject" and "unmarshalPutObject env (eventData e2) = Inr pA"
      and "putKey pA = ''A''" and "putVersion pA = 1"
      and "eventName e3 = EventPutObject" and "unmarshalPutObject env (eventData e3) = Inr pB"
      and "putKey pB = ''B''" and "putVersion pB = 1"
      and "eventName e4 = EventPayloadTransferred"
      and "unmarshalSelector env (eventData e4) = Inr (NewSelector ''s1'' 1)"
      and "eventName e = EventPayloadTransferred"
      and "unmarshalSelector env (eventData e) = Inr sel"
      and "intent b = Some i"
      and "readyOnce sp = closeWhenReady sp" and "\<not> panicked sp"
  shows "consumeStream env [EventReceived e1, EventReceived e2, EventReceived e3, EventReceived e4]
           (NewStreamProcessor c) =
         (NewStreamProcessor c)
           \<lparr>destinationCalls :=
              [SetBasis [\<lparr>Action = ChangeTypePut, Kind = putKind pA, Key = ''A'', Version = 1,
                           Object = putObject pA\<rparr>,
                         \<lparr>Action = ChangeTypePut, Kind = putKind pB, Key = ''B'', Version = 1,
                           Object = putObject pB\<rparr>]
                 \<lparr>state = ''s1'', version = 1\<rparr> True],
            statusUpdates := replicate 4 (DataSourceStateValid, noErrorInfo),
            closeWhenReady := True, isInitialized := True, readyOnce := True\<rparr>
       \<and> snd (handleEvent env e (b, sp)) =
         sp\<lparr>destinationCalls := destinationCalls sp @
               (case Code (Payload i) of
                  IntentTransferFull \<Rightarrow> [SetBasis (changes b) sel True]
                | IntentTransferChanges \<Rightarrow> [ApplyDelta (changes b) sel True]
                | IntentNone \<Rightarrow> []
                | IntentOther x \<Rightarrow> []),
            isInitialized := True, readyOnce := True, closeWhenReady := True,
            statusUpdates := statusUpdates sp @ [(DataSourceStateValid, noErrorInfo)]\<rparr>"
proof -
  have pa: "putChange pA = \<lparr>Action = ChangeTypePut, Kind = putKind pA, Key = ''A'', Version = 1,
                           Object = putObject pA\<rparr>"
    using assms(6,7) by (simp add: putChange_def)
  have pb: "putChange pB = \<lparr>Action = ChangeTypePut, Kind = putKind pB, Key = ''B'', Version = 1,
                           Object = putObject pB\<rparr>"
    using assms(10,11) by (simp add: putChange_def)
  have a: "consumeStream env [EventReceived e1, EventReceived e2, EventReceived e3, EventReceived e4]
           (NewStreamProcessor c) =
         (NewStreamProcessor c)
           \<lparr>destinationCalls := [SetBasis [putChange pA, putChange pB] (NewSelector ''s1'' 1) True],
            statusUpdates := replicate 4 (DataSourceStateValid, noErrorInfo),
            closeWhenReady := True, isInitialized := True, readyOnce := True\<rparr>"
    by (rule scenario_full_transfer [OF assms(1,2,3,4,5,8,9,12,13)])
  have b: "snd (handleEvent env e (b, sp)) =
         sp\<lparr>destinationCalls := destinationCalls sp @
               (case Code (Payload i) of
                  IntentTransferFull \<Rightarrow> [SetBasis (changes b) sel True]
                | IntentTransferChanges \<Rightarrow> [ApplyDelta (changes b) sel True]
                | IntentNone \<Rightarrow> []
                | IntentOther x \<Rightarrow> []),
            isInitialized := True, readyOnce := True, closeWhenReady := True,
            statusUpdates := statusUpdates sp @ [(DataSourceStateValid, noErrorInfo)]\<rparr>"
    using handle_transferred [OF assms(14,15,16,17,18)] by simp
  show ?thesis using a b by (simp add: pa pb NewSelector_def)
qed

theorem C4_witness:
  "destinationCalls
     (consumeStream demoEnv
        [EventReceived (demoEvent EventServerIntent ''intent-full''),
         EventReceived (demoEvent EventPutObject ''put-A''),
         EventReceived (demoEvent EventPutObject ''put-B''),
         EventReceived (demoEvent EventPayloadTransferred ''selector-s1'')]
        (NewStreamProcessor demoConfig)) =
     [SetBasis [\<lparr>Action = ChangeTypePut, Kind = ''flag'', Key = ''A'', Version = 1,
                  Object = Some ''{}''\<rparr>,
                \<lparr>Action = ChangeTypePut, Kind = ''flag'', Key = ''B'', Version = 1,
                  Object = Some ''{}''\<rparr>]
        \<lparr>state = ''s1'', version = 1\<rparr> True]
   \<and> destinationCalls
       (snd (handleEvent demoEnv (demoEvent EventPayloadTransferred ''selector-s1'')
          (AddDelete ''flag'' ''A'' 2 (fst (Start (intentWith IntentTransferChanges) NewChangeSetBuilder)),
           NewStreamProcessor demoConfig))) =
     [ApplyDelta [\<lparr>Action = ChangeTypeDelete, Kind = ''flag'', Key = ''A'', Version = 2,
                    Object = None\<rparr>]
        \<lparr>state = ''s1'', version = 1\<rparr> True]"
proof -
  let ?e1 = "demoEvent EventServerIntent ''intent-full''"
  let ?e2 = "demoEvent EventPutObject ''put-A''"
  let ?e3 = "demoEvent EventPutObject ''put-B''"
  let ?e4 = "demoEvent EventPayloadTransferred ''selector-s1''"
  let ?pA = "\<lparr>putKind = ''flag'', putKey = ''A'', putVersion = 1, putObject = Some ''{}''\<rparr>"
  let ?pB = "\<lparr>putKind = ''flag'', putKey = ''B'', putVersion = 1, putObject = Some ''{}''\<rparr>"
  let ?b = "AddDelete ''flag'' ''A'' 2 (fst (Start (intentWith IntentTransferChanges) NewChangeSetBuilder))"
  let ?sp = "NewStreamProcessor demoConfig"
  have hs:
    "eventName ?e1 = EventServerIntent"
    "unmarshalServerIntent demoEnv (eventData ?e1) = Inr (intentWith IntentTransferFull)"
    "Code (Payload (intentWith IntentTransferFull)) = IntentTransferFull"
    "eventName ?e2 = EventPutObject" "unmarshalPutObject demoEnv (eventData ?e2) = Inr ?pA"
    "putKey ?pA = ''A''" "putVersion ?pA = 1"
    "eventName ?e3 = EventPutObject" "unmarshalPutObject demoEnv (eventData ?e3) = Inr ?pB"
    "putKey ?pB = ''B''" "putVersion ?pB = 1"
    "eventName ?e4 = EventPayloadTransferred"
    "unmarshalSelector demoEnv (eventData ?e4) = Inr (NewSelector ''s1'' 1)"
    "eventName ?e4 = EventPayloadTransferred"
    "unmarshalSelector demoEnv (eventData ?e4) = Inr (NewSelector ''s1'' 1)"
    "intent ?b = Some (intentWith IntentTransferChanges)"
    "readyOnce ?sp = closeWhenReady ?sp" "\<not> panicked ?sp"
    by (simp_all add: demoEvent_def demoEnv_def intentWith_def AddDelete_def Start_def
          NewStreamProcessor_def)
  note r = C4_full_transfer_scenario_and_dispatch [OF hs, of demoConfig]
  show ?thesis using r
    by (simp add: intentWith_def AddDelete_def Start_def NewStreamProcessor_def
          NewSelector_def NewChangeSetBuilder_def)
qed

text \<open>
  C5. A well-formed server-intent event with code none, received by a processor whose
  one-shot guard agrees with the ready channel, leaves the builder as it was, makes no
  call to the destination, marks the processor initialized and leaves the ready channel
  closed, all within the handling of this one event; Valid is reported for the event.
\<close>

theorem C5_intent_none_signals_ready:
  assumes "eventName event = EventServerIntent"
      and "unmarshalServerIntent env (eventData event) = Inr serverIntent"
      and "Code (Payload serverIntent) = IntentNone"
      and "readyOnce sp = closeWhenReady sp" and "\<not> panicked sp"
  shows "handleEvent env event (b, sp) =
     (b, sp\<lparr>isInitialized := True, readyOnce := True, closeWhenReady := True,
           statusUpdates := statusUpdates sp @ [(DataSourceStateValid, noErrorInfo)]\<rparr>)"
  using assms
  by (simp add: handleEvent_def switchEvent_def setInitializedAndNotifyClient_def readyOnceDo_def
      closeReady_def UpdateStatus_def)

theorem C5_witness:
  "consumeStream demoEnv [EventReceived (demoEvent EventServerIntent ''intent-none'')]
     (NewStreamProcessor demoConfig) =
   (NewStreamProcessor demoConfig)
     \<lparr>isInitialized := True, readyOnce := True, closeWhenReady := True,
      statusUpdates := [(DataSourceStateValid, noErrorInfo)]\<rparr>
   \<and> destinationCalls
       (consumeStream demoEnv [EventReceived (demoEvent EventServerIntent ''intent-none'')]
          (NewStreamProcessor demoConfig)) = []"
proof -
  let ?e = "demoEvent EventServerIntent ''intent-none''"
  let ?sp = "NewStreamProcessor demoConfig"
  have hs:
    "eventName ?e = EventServerIntent"
    "unmarshalServerIntent demoEnv (eventData ?e) = Inr (intentWith IntentNone)"
    "Code (Payload (intentWith IntentNone)) = IntentNone"
    "readyOnce ?sp = closeWhenReady ?sp" "\<not> panicked ?sp"
    by (simp_all add: demoEvent_def demoEnv_def intentWith_def NewStreamProcessor_def)
  note r = C5_intent_none_signals_ready [OF hs, of NewChangeSetBuilder]
  show ?thesis using r hs(5)
    by (simp add: consumeStream_def Let_def NewStreamProcessor_def)
qed

subsection \<open>Close\<close>



subsection \<open>The ready signal\<close>

lemma readyInv_UpdateStatus [simp]: "readyInv (UpdateStatus st i p) = readyInv p"
  by (simp add: readyInv_def UpdateStatus_def)

lemma readyInv_dispatch [simp]: "readyInv (dispatchChangeSet cs p) = readyInv p"
  by (simp add: readyInv_def dispatchChangeSet_def callDestination_def split: IntentCode.splits)

lemma readyInv_readyOnceDo: "readyInv p \<Longrightarrow> readyInv (readyOnceDo p)"
  by (simp add: readyInv_def readyOnceDo_def closeReady_def)

lemma readyInv_setInit: "readyInv sp \<Longrightarrow> readyInv (setInitializedAndNotifyClient s sp)"
  by (simp add: readyInv_def setInitializedAndNotifyClient_def readyOnceDo_def closeReady_def)

lemma readyInv_switch:
  "readyInv sp \<Longrightarrow> readyInv (snd (snd (snd (switchEvent env event b sp))))"
  by (cases "eventName event")
     (auto simp add: switchEvent_def gotMalformedEvent_def readyInv_setInit
           split: sum.splits prod.splits option.splits)

lemma readyInv_handleEvent:
  assumes "readyInv sp"
  shows "readyInv (snd (handleEvent env event (b, sp)))"
proof -
  obtain b' pe sr sp' where sw: "switchEvent env event b sp = (b', pe, sr, sp')"
    by (cases "switchEvent env event b sp") auto
  have "readyInv sp'" using readyInv_switch [OF assms, of env event b] sw by simp
  then show ?thesis
    by (simp add: handleEvent_def sw readyInv_def UpdateStatus_def)
qed

lemma readyInv_concurrently: "readyInv sp \<Longrightarrow> readyInv (concurrently env c sp)"
  by (cases c)
     (auto simp add: concurrently_def errorHandler_def StreamProcessor_Close_def Let_def
           readyInv_def UpdateStatus_def split: StreamError.splits)

lemma readyInv_consumeLoop:
  "readyInv (snd bs) \<Longrightarrow> readyInv (snd (consumeLoop env steps bs))"
proof (induction env steps bs rule: consumeLoop.induct)
  case (2 env event steps bs)
  have "readyInv (snd (handleEvent env event bs))"
    using readyInv_handleEvent [OF "2.prems", of env event "fst bs"] by simp
  then show ?case using "2.IH" by (simp add: Let_def)
next
  case (5 env c steps bs)
  then show ?case by (simp add: readyInv_concurrently)
qed (simp_all add: readyInv_def)

lemma readyInv_consumeStream:
  "readyInv (consumeStream env steps (NewStreamProcessor c))"
  unfolding consumeStream_def
  by (rule readyInv_consumeLoop) (simp add: readyInv_def NewStreamProcessor_def)

lemma fold_concurrently_ready:
  "closeWhenReady (fold (concurrently env) cs sp) = closeWhenReady sp
   \<and> panicked (fold (concurrently env) cs sp) = panicked sp
   \<and> readyOnce (fold (concurrently env) cs sp) = readyOnce sp"
  by (induction cs arbitrary: sp)
     (auto simp add: concurrently_def errorHandler_def StreamProcessor_Close_def Let_def
           UpdateStatus_def split: StreamError.splits Concurrent.splits)

lemma subscribe_no_panic:
  "\<not> panicked (subscribe env sel during outcome (NewStreamProcessor c))"
proof (cases "subscribeRequest env (cfg (NewStreamProcessor c)) sel")
  case (Inl e)
  then show ?thesis
    by (simp add: subscribe_def closeReady_def UpdateStatus_def NewStreamProcessor_def)
next
  case (Inr req)
  let ?sp = "fold (concurrently env) during ((NewStreamProcessor c)\<lparr>connectionRequest := Some req\<rparr>)"
  have f: "\<not> closeWhenReady ?sp" "\<not> panicked ?sp" "\<not> readyOnce ?sp"
    by (simp_all add: fold_concurrently_ready NewStreamProcessor_def)
  show ?thesis
  proof (cases outcome)
    case SubscribeFailed
    then show ?thesis using f Inr by (simp add: subscribe_def closeReady_def)
  next
    case (Subscribed steps)
    have "readyInv ?sp" using f by (simp add: readyInv_def)
    then have "readyInv (consumeStream env steps ?sp)"
      unfolding consumeStream_def by (intro readyInv_consumeLoop) simp
    then show ?thesis using Inr Subscribed by (simp add: subscribe_def readyInv_def)
  qed
qed

lemma readyInv_exitSync: "readyInv pp \<Longrightarrow> readyInv (exitSync pp)"
  by (simp add: readyInv_def exitSync_def readyOnceDo_def closeReady_def)

lemma readyInv_requests: "readyInv (pp\<lparr>requests := n\<rparr>) = readyInv pp"
  by (simp add: readyInv_def)

lemma readyInv_pollClose: "readyInv pp \<Longrightarrow> readyInv (fst (PollingProcessor_Close pp))"
  by (simp add: readyInv_def PollingProcessor_Close_def)

lemma readyInv_setInitializedOnceDo: "readyInv pp \<Longrightarrow> readyInv (setInitializedOnceDo pp)"
  by (simp add: readyInv_def setInitializedOnceDo_def readyOnceDo_def closeReady_def)

lemma readyInv_syncLoop:
  "readyInv pp \<Longrightarrow> readyInv (syncLoop env steps pp)"
proof (induction steps arbitrary: pp)
  case Nil
  then show ?case by simp
next
  case (Cons step steps)
  show ?case
  proof (cases step)
    case QuitReceived
    then show ?thesis using Cons.prems by (simp add: readyInv_exitSync)
  next
    case CloseMeanwhile
    then show ?thesis using Cons.IH [OF readyInv_pollClose [OF Cons.prems]] by simp
  next
    case (Tick request)
    let ?pp = "pp\<lparr>requests := requests pp + 1\<rparr>"
    have p1: "readyInv ?pp" using Cons.prems by (simp add: readyInv_requests)
    show ?thesis
    proof (cases request)
      case (Inl err)
      have pl: "poll request pp = (Some err, ?pp)" using Inl by (simp add: poll_def Let_def)
      show ?thesis
      proof (cases err)
        case (httpStatusError code)
        let ?i = "\<lparr>ErrorKind = DataSourceErrorKindErrorResponse, StatusCode = code, Message = []\<rparr>"
        show ?thesis
        proof (cases "checkIfErrorIsRecoverableAndLog env code")
          case True
          have "readyInv (syncLoop env steps (UpdateStatus DataSourceStateInterrupted ?i ?pp))"
            by (rule Cons.IH) (simp add: readyInv_requests Cons.prems)
          then show ?thesis using Tick pl httpStatusError True by simp
        next
          case False
          have "readyInv (exitSync (readyOnceDo (UpdateStatus DataSourceStateOff ?i ?pp)))"
            by (intro readyInv_exitSync readyInv_readyOnceDo) (simp add: readyInv_requests Cons.prems)
          then show ?thesis using Tick pl httpStatusError False by simp
        qed
      next
        case (malformedJSONError msg)
        have "readyInv (syncLoop env steps (UpdateStatus DataSourceStateInterrupted
                 \<lparr>ErrorKind = DataSourceErrorKindInvalidData, StatusCode = 0, Message = msg\<rparr> ?pp))"
          by (rule Cons.IH) (simp add: readyInv_requests Cons.prems)
        then show ?thesis using Tick pl malformedJSONError by simp
      next
        case (otherError msg)
        have "readyInv (syncLoop env steps (UpdateStatus DataSourceStateInterrupted
                 \<lparr>ErrorKind = DataSourceErrorKindNetworkError, StatusCode = 0, Message = msg\<rparr> ?pp))"
          by (rule Cons.IH) (simp add: readyInv_requests Cons.prems)
        then show ?thesis using Tick pl otherError by simp
      qed
    next
      case (Inr cs)
      let ?q = "setInitializedOnceDo (UpdateStatus DataSourceStateValid noErrorInfo
                 (dispatchChangeSet cs ?pp))"
      have pl: "poll request pp = (None, dispatchChangeSet cs ?pp)"
        using Inr by (simp add: poll_def Let_def)
      have i: "readyInv ?q"
        by (rule readyInv_setInitializedOnceDo) (simp add: readyInv_requests Cons.prems)
      then have np: "\<not> panicked ?q" by (simp add: readyInv_def)
      have "readyInv (syncLoop env steps ?q)" by (rule Cons.IH [OF i])
      then show ?thesis using Tick pl np by (simp add: Let_def)
    qed
  qed
qed


text \<open>
  C8, as the code has it. In every run of either synchronizer from a new processor with an
  open ready channel, whatever the events, errors, polls and Close calls, no close of a
  closed channel happens: the ready channel is closed at most once. In the polling
  synchronizer, and in the event loop of the streaming synchronizer, the channel is closed
  only through the one-shot guard: at the end of every run the channel is closed exactly
  when the guard is done.
\<close>

theorem C8_ready_closed_at_most_once:
  "\<not> panicked (StreamProcessor_Sync env sel during outcome (NewStreamProcessor c))
   \<and> \<not> panicked (PollingProcessor_Sync env psteps newPollingProcessor)
   \<and> readyOnce (PollingProcessor_Sync env psteps newPollingProcessor) =
       closeWhenReady (PollingProcessor_Sync env psteps newPollingProcessor)
   \<and> readyOnce (consumeStream env steps (NewStreamProcessor c)) =
       closeWhenReady (consumeStream env steps (NewStreamProcessor c))"
proof -
  have p: "readyInv (PollingProcessor_Sync env psteps newPollingProcessor)"
    unfolding PollingProcessor_Sync_def
    by (rule readyInv_syncLoop) (simp add: readyInv_def newPollingProcessor_def)
  show ?thesis
    using p readyInv_consumeStream [of env steps c] subscribe_no_panic [of env sel during outcome c]
    by (simp add: readyInv_def StreamProcessor_Sync_def)
qed

text \<open>
  The claim C8 as stated fails: when the subscription fails (here after a 401 on the first
  connection), subscribe closes the ready channel directly, and the one-shot guard is left
  undone. A trigger through the guard on that processor would not collapse into the
  firing already made: it would close the closed channel.
\<close>

theorem C8_counterexample:
  "closeWhenReady refusedSync \<and> \<not> readyOnce refusedSync
   \<and> panicked (setInitializedAndNotifyClient True refusedSync)"
  by (simp add: refusedSync_def StreamProcessor_Sync_def subscribe_def subscribeRequest_def
        demoEnv_def demoConfig_def NoSelector_def IsDefined_def NewRequest_def parseURL_def
        cut_def concurrently_def errorHandler_def UpdateStatus_def closeReady_def
        NewStreamProcessor_def setInitializedAndNotifyClient_def readyOnceDo_def)

section \<open>Properties of the polling synchronizer\<close>

lemma syncLoop_fatal:
  assumes "\<not> checkIfErrorIsRecoverableAndLog env code"
      and "readyOnce pp = closeWhenReady pp"
  shows "syncLoop env (Tick (Inl (httpStatusError code)) # steps) pp =
           pp\<lparr>statusUpdates := statusUpdates pp @ [(DataSourceStateOff, errorResponse code)],
              readyOnce := True, closeWhenReady := True, returned := True,
              requests := requests pp + 1\<rparr>"
  using assms
  by (simp add: poll_def Let_def exitSync_def readyOnceDo_def closeReady_def UpdateStatus_def
        errorResponse_def)

lemma syncLoop_recoverable:
  assumes "checkIfErrorIsRecoverableAndLog env code"
  shows "syncLoop env (Tick (Inl (httpStatusError code)) # steps) pp =
           syncLoop env steps
             (UpdateStatus DataSourceStateInterrupted (errorResponse code)
                (pp\<lparr>requests := requests pp + 1\<rparr>))"
  using assms
  by (simp add: poll_def Let_def UpdateStatus_def errorResponse_def)

text \<open>
  C6. A poll fails with an HTTP status error. If the status is not recoverable, the
  goroutine reports Off with the error-response info of that status, leaves the ready
  channel closed (closing it if it was open), and returns: the steps that would follow
  are not taken, and exactly one request was made. If the status is recoverable, it
  reports Interrupted with the error-response info of that status and goes on with the
  following steps of the same loop, the ready channel untouched. (The ticker's period is
  not part of the model.)
\<close>

theorem C6_http_status_error_fatal_or_recoverable:
  "(\<not> checkIfErrorIsRecoverableAndLog env code \<and> readyOnce pp = closeWhenReady pp \<longrightarrow>
      syncLoop env (Tick (Inl (httpStatusError code)) # steps) pp =
        pp\<lparr>statusUpdates := statusUpdates pp @ [(DataSourceStateOff, errorResponse code)],
           readyOnce := True, closeWhenReady := True, returned := True,
           requests := requests pp + 1\<rparr>)
   \<and> (checkIfErrorIsRecoverableAndLog env code \<longrightarrow>
      syncLoop env (Tick (Inl (httpStatusError code)) # steps) pp =
        syncLoop env steps
          (UpdateStatus DataSourceStateInterrupted (errorResponse code)
             (pp\<lparr>requests := requests pp + 1\<rparr>)))"
  using syncLoop_fatal syncLoop_recoverable by blast

theorem C6_witness:
  "\<not> checkIfErrorIsRecoverableAndLog demoEnv 401
   \<and> syncLoop demoEnv [Tick (Inl (httpStatusError 401)), Tick (Inr NoChanges)] newPollingProcessor =
       newPollingProcessor
         \<lparr>statusUpdates := [(DataSourceStateOff, errorResponse 401)],
          readyOnce := True, closeWhenReady := True, returned := True, requests := 1\<rparr>
   \<and> checkIfErrorIsRecoverableAndLog demoEnv 500
   \<and> syncLoop demoEnv [Tick (Inl (httpStatusError 500))] newPollingProcessor =
       newPollingProcessor
         \<lparr>statusUpdates := [(DataSourceStateInterrupted, errorResponse 500)], requests := 1\<rparr>"
proof -
  have h1: "\<not> checkIfErrorIsRecoverableAndLog demoEnv 401" by (simp add: demoEnv_def)
  have h2: "readyOnce newPollingProcessor = closeWhenReady newPollingProcessor"
    by (simp add: newPollingProcessor_def)
  have h3: "checkIfErrorIsRecoverableAndLog demoEnv 500" by (simp add: demoEnv_def)
  note a = C6_http_status_error_fatal_or_recoverable
    [of demoEnv 401 newPollingProcessor "[Tick (Inr NoChanges)]"]
  note b = C6_http_status_error_fatal_or_recoverable [of demoEnv 500 newPollingProcessor "[]"]
  have ra: "syncLoop demoEnv [Tick (Inl (httpStatusError 401)), Tick (Inr NoChanges)] newPollingProcessor =
       newPollingProcessor
         \<lparr>statusUpdates := statusUpdates newPollingProcessor @ [(DataSourceStateOff, errorResponse 401)],
          readyOnce := True, closeWhenReady := True, returned := True,
          requests := requests newPollingProcessor + 1\<rparr>"
    using a h1 h2 by blast
  have rb: "syncLoop demoEnv [Tick (Inl (httpStatusError 500))] newPollingProcessor =
       syncLoop demoEnv []
          (UpdateStatus DataSourceStateInterrupted (errorResponse 500)
             (newPollingProcessor\<lparr>requests := requests newPollingProcessor + 1\<rparr>))"
    using b h3 by blast
  show ?thesis unfolding ra rb using h1 h3
    by (simp add: newPollingProcessor_def UpdateStatus_def)
qed

section \<open>Fetch\<close>

text \<open>
  C10. Whatever the context, Fetch of the stream processor returns no basis and an error.
  Fetch of the polling processor, when the request succeeds, returns a basis with the
  changes and the selector of the requester's change set and persist true, and no error;
  when the request fails it returns no basis and the request's error.
\<close>

theorem C10_Fetch:
  "StreamProcessor_Fetch ctx =
     (None, Some ''StreamProcessor does not implement Fetch capability'')
   \<and> PollingProcessor_Fetch (Inr changeSet) ctx' =
     (Some \<lparr>Events = csChanges changeSet, BasisSelector = selector changeSet, Persist = True\<rparr>,
      None)
   \<and> PollingProcessor_Fetch (Inl err) ctx' = (None, Some err)"
  by (simp add: StreamProcessor_Fetch_def PollingProcessor_Fetch_def)

end
